theory Spec2Isabelle
  imports Complex_Main
begin

section \<open>Numbers\<close>

text \<open>
  Python \<open>float\<close> values are modelled as real numbers: the arithmetic is exact, and
  there is neither NaN nor infinity.

  \<open>round(x, n)\<close> rounds to \<open>n\<close> decimals, a tie going to the even neighbour.
\<close>

definition round_half_even :: "real \<Rightarrow> int" where
  "round_half_even x =
     (let f = \<lfloor>x\<rfloor>; d = x - of_int f
      in if d < 1 / 2 then f
         else if 1 / 2 < d then f + 1
         else if even f then f else f + 1)"

definition py_round :: "real \<Rightarrow> nat \<Rightarrow> real" where
  "py_round x ndigits = of_int (round_half_even (x * 10 ^ ndigits)) / 10 ^ ndigits"

section \<open>config.py\<close>

definition SAFRA_MONTHS :: "nat list" where
  "SAFRA_MONTHS = [3, 4, 5, 6, 7]"

definition MIN_HISTORICAL_SAMPLES :: nat where
  "MIN_HISTORICAL_SAMPLES = 30"

definition PREMIUM_THRESHOLD_BAIXO :: real where
  "PREMIUM_THRESHOLD_BAIXO = 40"

definition PREMIUM_THRESHOLD_ALTO :: real where
  "PREMIUM_THRESHOLD_ALTO = 80"

definition LINEUP_DROP_OVERRIDE_THRESHOLD :: real where
  "LINEUP_DROP_OVERRIDE_THRESHOLD = - 10"

definition LINEUP_TREND_FORTE_QUEDA :: real where
  "LINEUP_TREND_FORTE_QUEDA = - 15"

definition LINEUP_TREND_FORTE_ALTA :: real where
  "LINEUP_TREND_FORTE_ALTA = 15"

definition CRITICAL_SPREAD_THRESHOLD :: real where
  "CRITICAL_SPREAD_THRESHOLD = 15"

definition COMPETITIVENESS_MUITO_BARATO :: real where
  "COMPETITIVENESS_MUITO_BARATO = - 20"

definition COMPETITIVENESS_MUITO_CARO :: real where
  "COMPETITIVENESS_MUITO_CARO = 20"

definition CAMBIO_FORTE_THRESHOLD :: real where
  "CAMBIO_FORTE_THRESHOLD = 3"

definition DEMAND_Z_FORTE :: real where
  "DEMAND_Z_FORTE = 3 / 2"

definition SCORING_WEIGHT_LINEUP :: real where
  "SCORING_WEIGHT_LINEUP = 30 / 100"

definition SCORING_WEIGHT_PREMIUM :: real where
  "SCORING_WEIGHT_PREMIUM = 25 / 100"

definition SCORING_WEIGHT_COMPETITIVENESS :: real where
  "SCORING_WEIGHT_COMPETITIVENESS = 20 / 100"

definition SCORING_WEIGHT_DEMAND :: real where
  "SCORING_WEIGHT_DEMAND = 15 / 100"

definition SCORING_WEIGHT_CAMBIO :: real where
  "SCORING_WEIGHT_CAMBIO = 10 / 100"

definition SCORING_FISICO_MUITO_FORTE :: real where
  "SCORING_FISICO_MUITO_FORTE = 80"

definition SCORING_FISICO_FORTE :: real where
  "SCORING_FISICO_FORTE = 65"

definition SCORING_FISICO_FRACO :: real where
  "SCORING_FISICO_FRACO = 35"

definition SCORING_FISICO_MUITO_FRACO :: real where
  "SCORING_FISICO_MUITO_FRACO = 20"

definition HEDGE_PERCENTIL_MUITO_ALTO :: real where
  "HEDGE_PERCENTIL_MUITO_ALTO = 80"

definition HEDGE_PERCENTIL_ALTO :: real where
  "HEDGE_PERCENTIL_ALTO = 65"

definition HEDGE_PERCENTIL_BAIXO :: real where
  "HEDGE_PERCENTIL_BAIXO = 35"

definition HEDGE_PERCENTIL_MUITO_BAIXO :: real where
  "HEDGE_PERCENTIL_MUITO_BAIXO = 20"

definition BOOK_HEDGE_TOLERANCE_PP :: real where
  "BOOK_HEDGE_TOLERANCE_PP = 20"

definition DEFAULT_LIMITE_LONG_PCT :: real where
  "DEFAULT_LIMITE_LONG_PCT = 80"

definition DEFAULT_LIMITE_SHORT_PCT :: real where
  "DEFAULT_LIMITE_SHORT_PCT = - 50"

definition DEFAULT_HEDGE_META_PCT :: real where
  "DEFAULT_HEDGE_META_PCT = 60"

section \<open>scoring.py\<close>

text \<open>
  The members of the enums carry a prefix for their class, since several classes share
  member names: \<open>P_\<close> for PhysicalRecommendation, \<open>H_\<close> for HedgeRecommendation,
  \<open>I_\<close> for Intensity, \<open>C_\<close> for PhysicalClassification. The fields of the result
  records carry a prefix in the same way.
\<close>

datatype PhysicalRecommendation =
  P_REDUZIR_FORTE | P_REDUZIR | P_MANTER | P_AUMENTAR | P_AUMENTAR_FORTE

datatype HedgeRecommendation =
  H_REDUZIR_FORTE | H_REDUZIR | H_MANTER | H_AUMENTAR | H_AUMENTAR_FORTE

datatype Intensity = I_FORTE | I_MODERADA | I_NEUTRA

datatype PhysicalClassification =
  C_MUITO_FRACO | C_FRACO | C_NEUTRO | C_FORTE | C_MUITO_FORTE

text \<open>The \<open>.value\<close> of each member, which is what the report stores.\<close>

fun PhysicalRecommendation_value :: "PhysicalRecommendation \<Rightarrow> string" where
  "PhysicalRecommendation_value P_REDUZIR_FORTE = ''reduzir_forte''"
| "PhysicalRecommendation_value P_REDUZIR = ''reduzir''"
| "PhysicalRecommendation_value P_MANTER = ''manter''"
| "PhysicalRecommendation_value P_AUMENTAR = ''aumentar''"
| "PhysicalRecommendation_value P_AUMENTAR_FORTE = ''aumentar_forte''"

fun HedgeRecommendation_value :: "HedgeRecommendation \<Rightarrow> string" where
  "HedgeRecommendation_value H_REDUZIR_FORTE = ''reduzir_forte''"
| "HedgeRecommendation_value H_REDUZIR = ''reduzir''"
| "HedgeRecommendation_value H_MANTER = ''manter''"
| "HedgeRecommendation_value H_AUMENTAR = ''aumentar''"
| "HedgeRecommendation_value H_AUMENTAR_FORTE = ''aumentar_forte''"

fun Intensity_value :: "Intensity \<Rightarrow> string" where
  "Intensity_value I_FORTE = ''forte''"
| "Intensity_value I_MODERADA = ''moderada''"
| "Intensity_value I_NEUTRA = ''neutra''"

fun PhysicalClassification_value :: "PhysicalClassification \<Rightarrow> string" where
  "PhysicalClassification_value C_MUITO_FRACO = ''muito_fraco''"
| "PhysicalClassification_value C_FRACO = ''fraco''"
| "PhysicalClassification_value C_NEUTRO = ''neutro''"
| "PhysicalClassification_value C_FORTE = ''forte''"
| "PhysicalClassification_value C_MUITO_FORTE = ''muito_forte''"

record pydate =
  year :: nat
  month :: nat
  day :: nat

record ComponentScores =
  cs_lineup :: real
  cs_premium :: real
  cs_competitiveness :: real
  cs_demand :: real
  cs_cambio :: real

record PhysicalResult =
  p_recommendation :: PhysicalRecommendation
  p_intensity :: Intensity
  sizing_pct :: real

record HedgeResult =
  h_recommendation :: HedgeRecommendation
  h_intensity :: Intensity
  delta_pp :: real

record ScoringResult =
  sr_date :: pydate
  sr_score_fisico :: real
  sr_classification :: PhysicalClassification
  sr_components :: ComponentScores
  sr_physical :: PhysicalResult
  sr_hedge :: HedgeResult
  sr_chicago_percentile :: real
  sr_chicago_is_spike :: bool

text \<open>\<open>_clamp\<close> and \<open>_linear_map\<close>, without the leading underscore.\<close>

definition clamp :: "real \<Rightarrow> real \<Rightarrow> real \<Rightarrow> real" where
  "clamp val min_val max_val = max min_val (min max_val val)"

definition linear_map :: "real \<Rightarrow> real \<Rightarrow> real \<Rightarrow> real \<Rightarrow> real \<Rightarrow> real" where
  "linear_map val in_min in_max out_min out_max =
     (if in_max = in_min then (out_min + out_max) / 2
      else
        let ratio = (val - in_min) / (in_max - in_min);
            result = out_min + ratio * (out_max - out_min)
        in clamp result (min out_min out_max) (max out_min out_max))"

definition score_lineup :: "real option \<Rightarrow> real" where
  "score_lineup var_semanal =
     (case var_semanal of
        None \<Rightarrow> 50
      | Some v \<Rightarrow> linear_map v LINEUP_TREND_FORTE_QUEDA LINEUP_TREND_FORTE_ALTA 0 100)"

definition score_premium :: "real \<Rightarrow> real" where
  "score_premium percentile = clamp percentile 0 100"

definition score_competitiveness :: "real \<Rightarrow> real" where
  "score_competitiveness spread_adjusted =
     linear_map spread_adjusted COMPETITIVENESS_MUITO_CARO COMPETITIVENESS_MUITO_BARATO 0 100"

definition score_demand :: "real option \<Rightarrow> real" where
  "score_demand z_pace =
     (case z_pace of
        None \<Rightarrow> 50
      | Some z \<Rightarrow> linear_map z (- DEMAND_Z_FORTE) DEMAND_Z_FORTE 0 100)"

definition score_cambio :: "real option \<Rightarrow> real" where
  "score_cambio var_5d =
     (case var_5d of
        None \<Rightarrow> 50
      | Some v \<Rightarrow> linear_map v CAMBIO_FORTE_THRESHOLD (- CAMBIO_FORTE_THRESHOLD) 0 100)"

definition compute_component_scores ::
  "real option \<Rightarrow> real \<Rightarrow> real \<Rightarrow> real option \<Rightarrow> real option \<Rightarrow> ComponentScores" where
  "compute_component_scores var_semanal_lineup percentil_premium spread_adjusted z_pace
       var_cambio_5d =
     \<lparr> cs_lineup = score_lineup var_semanal_lineup,
       cs_premium = score_premium percentil_premium,
       cs_competitiveness = score_competitiveness spread_adjusted,
       cs_demand = score_demand z_pace,
       cs_cambio = score_cambio var_cambio_5d \<rparr>"

definition compute_score_fisico :: "ComponentScores \<Rightarrow> real" where
  "compute_score_fisico components =
     (let score =
            SCORING_WEIGHT_LINEUP * cs_lineup components
          + SCORING_WEIGHT_PREMIUM * cs_premium components
          + SCORING_WEIGHT_COMPETITIVENESS * cs_competitiveness components
          + SCORING_WEIGHT_DEMAND * cs_demand components
          + SCORING_WEIGHT_CAMBIO * cs_cambio components
      in clamp score 0 100)"

definition classify_score_fisico :: "real \<Rightarrow> PhysicalClassification" where
  "classify_score_fisico score =
     (if score \<ge> SCORING_FISICO_MUITO_FORTE then C_MUITO_FORTE
      else if score \<ge> SCORING_FISICO_FORTE then C_FORTE
      else if score \<le> SCORING_FISICO_MUITO_FRACO then C_MUITO_FRACO
      else if score \<le> SCORING_FISICO_FRACO then C_FRACO
      else C_NEUTRO)"

definition determine_intensity :: "real \<Rightarrow> Intensity" where
  "determine_intensity score =
     (if score > 80 \<or> score < 20 then I_FORTE
      else if score > 65 \<or> score < 35 then I_MODERADA
      else I_NEUTRA)"

definition compute_physical_recommendation :: "real \<Rightarrow> PhysicalResult" where
  "compute_physical_recommendation score =
     (let intensity = determine_intensity score
      in if score \<ge> SCORING_FISICO_MUITO_FORTE then
           \<lparr> p_recommendation = P_AUMENTAR_FORTE, p_intensity = I_FORTE, sizing_pct = 25 \<rparr>
         else if score \<ge> SCORING_FISICO_FORTE then
           \<lparr> p_recommendation = P_AUMENTAR, p_intensity = intensity, sizing_pct = 15 \<rparr>
         else if score \<le> SCORING_FISICO_MUITO_FRACO then
           \<lparr> p_recommendation = P_REDUZIR_FORTE, p_intensity = I_FORTE, sizing_pct = - 25 \<rparr>
         else if score \<le> SCORING_FISICO_FRACO then
           \<lparr> p_recommendation = P_REDUZIR, p_intensity = intensity, sizing_pct = - 15 \<rparr>
         else
           \<lparr> p_recommendation = P_MANTER, p_intensity = I_NEUTRA, sizing_pct = 0 \<rparr>)"

definition compute_hedge_recommendation :: "real \<Rightarrow> bool \<Rightarrow> HedgeResult" where
  "compute_hedge_recommendation chicago_percentile is_speculative_spike =
     (if is_speculative_spike \<and> chicago_percentile \<ge> 50 then
        \<lparr> h_recommendation = H_AUMENTAR, h_intensity = I_MODERADA, delta_pp = 10 \<rparr>
      else if chicago_percentile \<ge> HEDGE_PERCENTIL_MUITO_ALTO then
        \<lparr> h_recommendation = H_AUMENTAR_FORTE, h_intensity = I_FORTE, delta_pp = 20 \<rparr>
      else if chicago_percentile \<ge> HEDGE_PERCENTIL_ALTO then
        \<lparr> h_recommendation = H_AUMENTAR, h_intensity = I_MODERADA, delta_pp = 10 \<rparr>
      else if chicago_percentile \<le> HEDGE_PERCENTIL_MUITO_BAIXO then
        \<lparr> h_recommendation = H_REDUZIR_FORTE, h_intensity = I_FORTE, delta_pp = - 20 \<rparr>
      else if chicago_percentile \<le> HEDGE_PERCENTIL_BAIXO then
        \<lparr> h_recommendation = H_REDUZIR, h_intensity = I_MODERADA, delta_pp = - 10 \<rparr>
      else
        \<lparr> h_recommendation = H_MANTER, h_intensity = I_NEUTRA, delta_pp = 0 \<rparr>)"

definition compute_scoring ::
  "pydate \<Rightarrow> real option \<Rightarrow> real \<Rightarrow> real \<Rightarrow> real option \<Rightarrow> real option \<Rightarrow> real \<Rightarrow> bool
     \<Rightarrow> ScoringResult" where
  "compute_scoring dt var_semanal_lineup percentil_premium spread_adjusted z_pace
       var_cambio_5d chicago_percentile chicago_is_spike =
     (let components =
            compute_component_scores var_semanal_lineup percentil_premium spread_adjusted
              z_pace var_cambio_5d;
          score_fisico = compute_score_fisico components;
          classification = classify_score_fisico score_fisico;
          physical = compute_physical_recommendation score_fisico;
          hedge = compute_hedge_recommendation chicago_percentile chicago_is_spike
      in \<lparr> sr_date = dt,
           sr_score_fisico = score_fisico,
           sr_classification = classification,
           sr_components = components,
           sr_physical = physical,
           sr_hedge = hedge,
           sr_chicago_percentile = chicago_percentile,
           sr_chicago_is_spike = chicago_is_spike \<rparr>)"

section \<open>overrides.py\<close>

datatype OverrideType =
  LOGISTICA | QUEDA_CONJUNTA | ARMADILHA_PREMIO | COMPETITIVIDADE_CRITICA
| CHICAGO_ESPECULATIVO

fun OverrideType_value :: "OverrideType \<Rightarrow> string" where
  "OverrideType_value LOGISTICA = ''logistica''"
| "OverrideType_value QUEDA_CONJUNTA = ''queda_conjunta''"
| "OverrideType_value ARMADILHA_PREMIO = ''armadilha_premio''"
| "OverrideType_value COMPETITIVIDADE_CRITICA = ''competitividade_critica''"
| "OverrideType_value CHICAGO_ESPECULATIVO = ''chicago_especulativo''"

fun OVERRIDE_PRIORITY :: "OverrideType \<Rightarrow> int" where
  "OVERRIDE_PRIORITY LOGISTICA = 1"
| "OVERRIDE_PRIORITY QUEDA_CONJUNTA = 2"
| "OVERRIDE_PRIORITY ARMADILHA_PREMIO = 3"
| "OVERRIDE_PRIORITY COMPETITIVIDADE_CRITICA = 4"
| "OVERRIDE_PRIORITY CHICAGO_ESPECULATIVO = 5"

text \<open>
  A message built by an f-string is kept unrendered: the template, with the format
  specification of each field, and the numbers that fill the fields, in order. A plain
  message has no numbers.
\<close>

type_synonym message = "string \<times> real list"

record Override =
  otype :: OverrideType
  reason :: message
  physical_action :: "PhysicalResult option"
  hedge_action :: "HedgeResult option"
  priority :: int

record OverrideEvaluation =
  active_overrides :: "Override list"
  dominant_override :: "Override option"
  original_physical :: PhysicalResult
  original_hedge :: HedgeResult
  final_physical :: PhysicalResult
  final_hedge :: HedgeResult

definition check_queda_conjunta :: "real option \<Rightarrow> real \<Rightarrow> Override option" where
  "check_queda_conjunta var_semanal_lineup percentil_premium =
     (case var_semanal_lineup of
        None \<Rightarrow> None
      | Some v \<Rightarrow>
         (let lineup_caindo = (v < LINEUP_DROP_OVERRIDE_THRESHOLD);
              premio_baixo = (percentil_premium < PREMIUM_THRESHOLD_BAIXO)
          in if lineup_caindo \<and> premio_baixo then
               Some \<lparr> otype = QUEDA_CONJUNTA,
                      reason = (''Line-up caindo ({:.1f}%) e premio baixo (percentil {:.0f})'',
                                [v, percentil_premium]),
                      physical_action =
                        Some \<lparr> p_recommendation = P_REDUZIR, p_intensity = I_FORTE,
                               sizing_pct = - 20 \<rparr>,
                      hedge_action = None,
                      priority = OVERRIDE_PRIORITY QUEDA_CONJUNTA \<rparr>
             else None))"

definition check_armadilha_premio :: "real option \<Rightarrow> real \<Rightarrow> Override option" where
  "check_armadilha_premio var_semanal_lineup percentil_premium =
     (case var_semanal_lineup of
        None \<Rightarrow> None
      | Some v \<Rightarrow>
         (let lineup_caindo = (v < LINEUP_DROP_OVERRIDE_THRESHOLD);
              premio_alto = (percentil_premium > PREMIUM_THRESHOLD_ALTO)
          in if lineup_caindo \<and> premio_alto then
               Some \<lparr> otype = ARMADILHA_PREMIO,
                      reason = (''Premio alto (percentil {:.0f}) mas line-up caindo ({:.1f}%)'',
                                [percentil_premium, v]),
                      physical_action =
                        Some \<lparr> p_recommendation = P_REDUZIR_FORTE, p_intensity = I_FORTE,
                               sizing_pct = - 25 \<rparr>,
                      hedge_action = None,
                      priority = OVERRIDE_PRIORITY ARMADILHA_PREMIO \<rparr>
             else None))"

text \<open>\<open>logistics_reason or "..."\<close>: None and the empty string both give the default.\<close>

definition check_logistica :: "bool \<Rightarrow> string option \<Rightarrow> Override option" where
  "check_logistica logistics_flag_active logistics_reason =
     (if logistics_flag_active then
        (let reason_text =
               (case logistics_reason of
                  None \<Rightarrow> ''Restricao logistica ativa''
                | Some r \<Rightarrow> if r = [] then ''Restricao logistica ativa'' else r)
         in Some \<lparr> otype = LOGISTICA,
                   reason = (reason_text, []),
                   physical_action =
                     Some \<lparr> p_recommendation = P_REDUZIR_FORTE, p_intensity = I_FORTE,
                            sizing_pct = - 30 \<rparr>,
                   hedge_action = None,
                   priority = OVERRIDE_PRIORITY LOGISTICA \<rparr>)
      else None)"

definition check_chicago_especulativo :: "bool \<Rightarrow> bool \<Rightarrow> Override option" where
  "check_chicago_especulativo is_speculative_spike narrativa_confirmada =
     (if is_speculative_spike \<and> \<not> narrativa_confirmada then
        Some \<lparr> otype = CHICAGO_ESPECULATIVO,
               reason =
                 (''Spike especulativo em Chicago (>5% em 5d) sem narrativa confirmada'', []),
               physical_action =
                 Some \<lparr> p_recommendation = P_MANTER, p_intensity = I_MODERADA,
                        sizing_pct = 0 \<rparr>,
               hedge_action =
                 Some \<lparr> h_recommendation = H_AUMENTAR_FORTE, h_intensity = I_FORTE,
                        delta_pp = 20 \<rparr>,
               priority = OVERRIDE_PRIORITY CHICAGO_ESPECULATIVO \<rparr>
      else None)"

definition check_competitividade_critica :: "real \<Rightarrow> Override option" where
  "check_competitividade_critica spread_adjusted =
     (if spread_adjusted > CRITICAL_SPREAD_THRESHOLD then
        Some \<lparr> otype = COMPETITIVIDADE_CRITICA,
               reason = (''Brasil nao-competitivo (spread +{:.1f} USD/ton)'', [spread_adjusted]),
               physical_action =
                 Some \<lparr> p_recommendation = P_REDUZIR, p_intensity = I_MODERADA,
                        sizing_pct = - 15 \<rparr>,
               hedge_action = None,
               priority = OVERRIDE_PRIORITY COMPETITIVIDADE_CRITICA \<rparr>
      else None)"

text \<open>
  \<open>if override := check(...): active.append(override)\<close>: an Override object is always
  truthy, so the branch is taken exactly when the check returned one.
\<close>

definition append_if :: "Override list \<Rightarrow> Override option \<Rightarrow> Override list" where
  "append_if active r = (case r of None \<Rightarrow> active | Some override \<Rightarrow> active @ [override])"

text \<open>
  \<open>list.sort\<close> is stable, as \<open>sort_key\<close> is. The result objects are always truthy too,
  so \<open>if dominant.physical_action\<close> tests for None only.
\<close>

definition evaluate_overrides ::
  "real option \<Rightarrow> real \<Rightarrow> real \<Rightarrow> bool \<Rightarrow> string option \<Rightarrow> bool \<Rightarrow> bool
     \<Rightarrow> PhysicalResult \<Rightarrow> HedgeResult \<Rightarrow> OverrideEvaluation" where
  "evaluate_overrides var_semanal_lineup percentil_premium spread_adjusted
       logistics_flag_active logistics_reason is_speculative_spike narrativa_confirmada
       original_physical' original_hedge' =
     (let active0 = [];
          active1 = append_if active0 (check_logistica logistics_flag_active logistics_reason);
          active2 = append_if active1 (check_queda_conjunta var_semanal_lineup percentil_premium);
          active3 = append_if active2 (check_armadilha_premio var_semanal_lineup percentil_premium);
          active4 = append_if active3 (check_competitividade_critica spread_adjusted);
          active5 = append_if active4
                      (check_chicago_especulativo is_speculative_spike narrativa_confirmada);
          active = sort_key priority active5;
          dominant = (case active of [] \<Rightarrow> None | first # _ \<Rightarrow> Some first);
          final_physical' =
            (case dominant of
               None \<Rightarrow> original_physical'
             | Some d \<Rightarrow>
                (case physical_action d of None \<Rightarrow> original_physical' | Some a \<Rightarrow> a));
          final_hedge' =
            (case dominant of
               None \<Rightarrow> original_hedge'
             | Some d \<Rightarrow>
                (case hedge_action d of None \<Rightarrow> original_hedge' | Some a \<Rightarrow> a))
      in \<lparr> active_overrides = active,
           dominant_override = dominant,
           original_physical = original_physical',
           original_hedge = original_hedge',
           final_physical = final_physical',
           final_hedge = final_hedge' \<rparr>)"

section \<open>book.py\<close>

record BookState =
  exposicao_fisica_pct :: real
  limite_long_pct :: real
  limite_short_pct :: real
  hedge_atual_pct :: real
  hedge_meta_pct :: real

definition exposicao_disponivel_long :: "BookState \<Rightarrow> real" where
  "exposicao_disponivel_long self = max 0 (limite_long_pct self - exposicao_fisica_pct self)"

definition exposicao_disponivel_short :: "BookState \<Rightarrow> real" where
  "exposicao_disponivel_short self = max 0 (exposicao_fisica_pct self - limite_short_pct self)"

definition is_at_long_limit :: "BookState \<Rightarrow> bool" where
  "is_at_long_limit self \<longleftrightarrow> exposicao_fisica_pct self \<ge> limite_long_pct self"

definition is_at_short_limit :: "BookState \<Rightarrow> bool" where
  "is_at_short_limit self \<longleftrightarrow> exposicao_fisica_pct self \<le> limite_short_pct self"

definition is_overhedged :: "BookState \<Rightarrow> bool" where
  "is_overhedged self \<longleftrightarrow>
     hedge_atual_pct self \<ge> hedge_meta_pct self + BOOK_HEDGE_TOLERANCE_PP"

text \<open>
  \<open>modulation_reason\<close> is the list of the reasons that \<open>" | ".join\<close> would render, or
  None when there is none.
\<close>

record ModulatedResult =
  m_physical :: PhysicalResult
  m_hedge :: HedgeResult
  physical_was_modulated :: bool
  hedge_was_modulated :: bool
  modulation_reason :: "message list option"

definition modulate_by_book :: "PhysicalResult \<Rightarrow> HedgeResult \<Rightarrow> BookState \<Rightarrow> ModulatedResult" where
  "modulate_by_book physical hedge book =
     (let up = (p_recommendation physical \<in> {P_AUMENTAR, P_AUMENTAR_FORTE}
                 \<and> is_at_long_limit book);
          (new_physical1, physical_modulated1, reasons1) =
            (if up then
               (\<lparr> p_recommendation = P_MANTER, p_intensity = I_NEUTRA, sizing_pct = 0 \<rparr>,
                True,
                [(''Exposicao no limite long ({}%)'', [limite_long_pct book])])
             else (physical, False, []));
          down = (p_recommendation physical \<in> {P_REDUZIR, P_REDUZIR_FORTE}
                   \<and> is_at_short_limit book);
          (new_physical2, physical_modulated2, reasons2) =
            (if down then
               (\<lparr> p_recommendation = P_MANTER, p_intensity = I_NEUTRA, sizing_pct = 0 \<rparr>,
                True,
                reasons1 @ [(''Exposicao no limite short ({}%)'', [limite_short_pct book])])
             else (new_physical1, physical_modulated1, reasons1));
          over = (h_recommendation hedge \<in> {H_AUMENTAR, H_AUMENTAR_FORTE}
                   \<and> is_overhedged book);
          (new_hedge, hedge_modulated, reasons3) =
            (if over then
               (\<lparr> h_recommendation = H_MANTER, h_intensity = I_NEUTRA, delta_pp = 0 \<rparr>,
                True,
                reasons2 @ [(''Hedge acima da meta + tolerancia ({}% vs meta {}%)'',
                             [hedge_atual_pct book, hedge_meta_pct book])])
             else (hedge, False, reasons2))
      in \<lparr> m_physical = new_physical2,
           m_hedge = new_hedge,
           physical_was_modulated = physical_modulated2,
           hedge_was_modulated = hedge_modulated,
           modulation_reason = (if reasons3 \<noteq> [] then Some reasons3 else None) \<rparr>)"

definition calculate_effective_sizing :: "real \<Rightarrow> BookState \<Rightarrow> real" where
  "calculate_effective_sizing sizing book =
     (if sizing > 0 then min sizing (exposicao_disponivel_long book)
      else if sizing < 0 then max sizing (- exposicao_disponivel_short book)
      else 0)"

section \<open>engine.py\<close>

record MarketInputs =
  dt :: pydate
  var_semanal_lineup :: "real option"
  percentil_premium :: real
  spread_adjusted :: real
  z_pace :: "real option"
  var_cambio_5d :: "real option"
  chicago_percentile :: real
  chicago_is_spike :: bool
  logistics_flag_active :: bool
  logistics_reason :: "string option"
  narrativa_confirmada :: bool

text \<open>The two recommendation dictionaries of the report, with their three keys each.\<close>

record RecomendacaoFisica =
  rf_acao :: string
  rf_intensidade :: string
  rf_sizing_pct :: real

record RecomendacaoHedge =
  rh_acao :: string
  rh_intensidade :: string
  rh_delta_pp :: real

text \<open>
  The report, without its \<open>justificativa\<close>: that field is a rendered sentence about the
  other fields and is not modelled. \<open>componentes\<close> is the dictionary in source order.
\<close>

record DecisionReport =
  data_referencia :: pydate
  score_fisico :: real
  classificacao :: string
  recomendacao_fisica :: RecomendacaoFisica
  recomendacao_hedge :: RecomendacaoHedge
  componentes :: "(string \<times> (string \<times> real) list) list"
  overrides_ativos :: "string list"
  override_dominante :: "string option"
  modulacao_aplicada :: bool
  modulacao_razao :: "message list option"

text \<open>\<open>x or 0.0\<close> for an optional number.\<close>

definition or_zero :: "real option \<Rightarrow> real" where
  "or_zero x = (case x of None \<Rightarrow> 0 | Some v \<Rightarrow> if v = 0 then 0 else v)"

definition default_book :: BookState where
  "default_book =
     \<lparr> exposicao_fisica_pct = 0,
       limite_long_pct = DEFAULT_LIMITE_LONG_PCT,
       limite_short_pct = DEFAULT_LIMITE_SHORT_PCT,
       hedge_atual_pct = 0,
       hedge_meta_pct = DEFAULT_HEDGE_META_PCT \<rparr>"

definition run_decision_engine :: "MarketInputs \<Rightarrow> BookState option \<Rightarrow> DecisionReport" where
  "run_decision_engine inputs book_opt =
     (let book = (case book_opt of None \<Rightarrow> default_book | Some b \<Rightarrow> b);
          scoring =
            compute_scoring (dt inputs) (var_semanal_lineup inputs) (percentil_premium inputs)
              (spread_adjusted inputs) (z_pace inputs) (var_cambio_5d inputs)
              (chicago_percentile inputs) (chicago_is_spike inputs);
          override_eval =
            evaluate_overrides (var_semanal_lineup inputs) (percentil_premium inputs)
              (spread_adjusted inputs) (logistics_flag_active inputs) (logistics_reason inputs)
              (chicago_is_spike inputs) (narrativa_confirmada inputs)
              (sr_physical scoring) (sr_hedge scoring);
          modulated =
            modulate_by_book (final_physical override_eval) (final_hedge override_eval) book;
          effective_sizing =
            calculate_effective_sizing (sizing_pct (m_physical modulated)) book
      in \<lparr> data_referencia = dt inputs,
           score_fisico = sr_score_fisico scoring,
           classificacao = PhysicalClassification_value (sr_classification scoring),
           recomendacao_fisica =
             \<lparr> rf_acao = PhysicalRecommendation_value (p_recommendation (m_physical modulated)),
               rf_intensidade = Intensity_value (p_intensity (m_physical modulated)),
               rf_sizing_pct = py_round effective_sizing 1 \<rparr>,
           recomendacao_hedge =
             \<lparr> rh_acao = HedgeRecommendation_value (h_recommendation (m_hedge modulated)),
               rh_intensidade = Intensity_value (h_intensity (m_hedge modulated)),
               rh_delta_pp = py_round (delta_pp (m_hedge modulated)) 1 \<rparr>,
           componentes =
             [(''lineup'',
                 [(''score'', py_round (cs_lineup (sr_components scoring)) 1),
                  (''var_semanal'', or_zero (var_semanal_lineup inputs))]),
              (''premio'',
                 [(''score'', py_round (cs_premium (sr_components scoring)) 1),
                  (''percentil'', percentil_premium inputs)]),
              (''competitividade'',
                 [(''score'', py_round (cs_competitiveness (sr_components scoring)) 1),
                  (''spread'', spread_adjusted inputs)]),
              (''demanda'',
                 [(''score'', py_round (cs_demand (sr_components scoring)) 1),
                  (''z_pace'', or_zero (z_pace inputs))]),
              (''cambio'',
                 [(''score'', py_round (cs_cambio (sr_components scoring)) 1),
                  (''var_5d'', or_zero (var_cambio_5d inputs))])],
           overrides_ativos =
             map (\<lambda>ov. OverrideType_value (otype ov)) (active_overrides override_eval),
           override_dominante =
             (case dominant_override override_eval of
                None \<Rightarrow> None
              | Some d \<Rightarrow> Some (OverrideType_value (otype d))),
           modulacao_aplicada =
             (physical_was_modulated modulated \<or> hedge_was_modulated modulated),
           modulacao_razao = modulation_reason modulated \<rparr>)"

section \<open>premium.py\<close>



text \<open>
  Both errors of the module are \<open>ValueError\<close>s; the constructor says which \<open>raise\<close> it
  was. A record of the log is the warning with its three arguments.
\<close>

datatype error =
  ValueError_historico_vazio
| ValueError_premio_nulo pydate




definition premium_calculate_percentile :: "real \<Rightarrow> real list \<Rightarrow> error + real" where
  "premium_calculate_percentile val historical =
     (if historical = [] then Inl ValueError_historico_vazio
      else
        let count_below = length (filter (\<lambda>h. h < val) historical);
            count_equal = length (filter (\<lambda>h. h = val) historical);
            percentile =
              (real count_below + 0.5 * real count_equal) / real (length historical) * 100
        in Inr (py_round percentile 2))"




section \<open>auxiliaries.py\<close>

definition auxiliaries_calculate_percentile :: "real \<Rightarrow> real list \<Rightarrow> real" where
  "auxiliaries_calculate_percentile val historical =
     (if historical = [] then 50
      else
        let count_below = length (filter (\<lambda>h. h < val) historical);
            count_equal = length (filter (\<lambda>h. h = val) historical);
            percentile =
              (real count_below + 0.5 * real count_equal) / real (length historical) * 100
        in py_round percentile 2)"

section \<open>The rank formula of the specification\<close>


section \<open>Names for intermediate values\<close>

text \<open>The five appends of \<open>evaluate_overrides\<close>, before the sort.\<close>

abbreviation appended ::
  "Override option \<Rightarrow> Override option \<Rightarrow> Override option \<Rightarrow> Override option
     \<Rightarrow> Override option \<Rightarrow> Override list" where
  "appended a b c d e \<equiv>
     append_if (append_if (append_if (append_if (append_if [] a) b) c) d) e"

text \<open>The local values of \<open>run_decision_engine\<close>, as functions of its arguments.\<close>

abbreviation engine_book :: "BookState option \<Rightarrow> BookState" where
  "engine_book book_opt \<equiv> (case book_opt of None \<Rightarrow> default_book | Some b \<Rightarrow> b)"

abbreviation engine_scoring :: "MarketInputs \<Rightarrow> ScoringResult" where
  "engine_scoring inputs \<equiv>
     compute_scoring (dt inputs) (var_semanal_lineup inputs) (percentil_premium inputs)
       (spread_adjusted inputs) (z_pace inputs) (var_cambio_5d inputs)
       (chicago_percentile inputs) (chicago_is_spike inputs)"

abbreviation engine_override_eval :: "MarketInputs \<Rightarrow> OverrideEvaluation" where
  "engine_override_eval inputs \<equiv>
     evaluate_overrides (var_semanal_lineup inputs) (percentil_premium inputs)
       (spread_adjusted inputs) (logistics_flag_active inputs) (logistics_reason inputs)
       (chicago_is_spike inputs) (narrativa_confirmada inputs)
       (sr_physical (engine_scoring inputs)) (sr_hedge (engine_scoring inputs))"

abbreviation engine_modulated :: "MarketInputs \<Rightarrow> BookState option \<Rightarrow> ModulatedResult" where
  "engine_modulated inputs book_opt \<equiv>
     modulate_by_book (final_physical (engine_override_eval inputs))
       (final_hedge (engine_override_eval inputs)) (engine_book book_opt)"

section \<open>Facts about the definitions\<close>

lemmas config =
  SAFRA_MONTHS_def MIN_HISTORICAL_SAMPLES_def
  PREMIUM_THRESHOLD_BAIXO_def PREMIUM_THRESHOLD_ALTO_def
  LINEUP_DROP_OVERRIDE_THRESHOLD_def LINEUP_TREND_FORTE_QUEDA_def
  LINEUP_TREND_FORTE_ALTA_def CRITICAL_SPREAD_THRESHOLD_def
  COMPETITIVENESS_MUITO_BARATO_def COMPETITIVENESS_MUITO_CARO_def
  CAMBIO_FORTE_THRESHOLD_def DEMAND_Z_FORTE_def
  SCORING_WEIGHT_LINEUP_def SCORING_WEIGHT_PREMIUM_def
  SCORING_WEIGHT_COMPETITIVENESS_def SCORING_WEIGHT_DEMAND_def
  SCORING_WEIGHT_CAMBIO_def
  SCORING_FISICO_MUITO_FORTE_def SCORING_FISICO_FORTE_def
  SCORING_FISICO_FRACO_def SCORING_FISICO_MUITO_FRACO_def
  HEDGE_PERCENTIL_MUITO_ALTO_def HEDGE_PERCENTIL_ALTO_def
  HEDGE_PERCENTIL_BAIXO_def HEDGE_PERCENTIL_MUITO_BAIXO_def
  BOOK_HEDGE_TOLERANCE_PP_def
  DEFAULT_LIMITE_LONG_PCT_def DEFAULT_LIMITE_SHORT_PCT_def
  DEFAULT_HEDGE_META_PCT_def

subsection \<open>What each check returns\<close>

lemma check_logistica_Some:
  "check_logistica lf lr = Some x \<Longrightarrow>
     priority x = 1 \<and> otype x = LOGISTICA \<and> hedge_action x = None
     \<and> physical_action x =
         Some \<lparr> p_recommendation = P_REDUZIR_FORTE, p_intensity = I_FORTE, sizing_pct = - 30 \<rparr>"
  by (auto simp add: check_logistica_def Let_def split: if_splits)

lemma check_queda_conjunta_Some:
  "check_queda_conjunta v p = Some x \<Longrightarrow>
     priority x = 2 \<and> otype x = QUEDA_CONJUNTA \<and> hedge_action x = None
     \<and> physical_action x =
         Some \<lparr> p_recommendation = P_REDUZIR, p_intensity = I_FORTE, sizing_pct = - 20 \<rparr>"
  by (auto simp add: check_queda_conjunta_def Let_def split: if_splits option.splits)

lemma check_armadilha_premio_Some:
  "check_armadilha_premio v p = Some x \<Longrightarrow>
     priority x = 3 \<and> otype x = ARMADILHA_PREMIO \<and> hedge_action x = None
     \<and> physical_action x =
         Some \<lparr> p_recommendation = P_REDUZIR_FORTE, p_intensity = I_FORTE, sizing_pct = - 25 \<rparr>"
  by (auto simp add: check_armadilha_premio_def Let_def split: if_splits option.splits)

lemma check_competitividade_critica_Some:
  "check_competitividade_critica s = Some x \<Longrightarrow>
     priority x = 4 \<and> otype x = COMPETITIVIDADE_CRITICA \<and> hedge_action x = None
     \<and> physical_action x =
         Some \<lparr> p_recommendation = P_REDUZIR, p_intensity = I_MODERADA, sizing_pct = - 15 \<rparr>"
  by (auto simp add: check_competitividade_critica_def split: if_splits)

lemma check_chicago_especulativo_Some:
  "check_chicago_especulativo sp nc = Some x \<Longrightarrow>
     priority x = 5 \<and> otype x = CHICAGO_ESPECULATIVO
     \<and> hedge_action x =
         Some \<lparr> h_recommendation = H_AUMENTAR_FORTE, h_intensity = I_FORTE, delta_pp = 20 \<rparr>
     \<and> physical_action x =
         Some \<lparr> p_recommendation = P_MANTER, p_intensity = I_MODERADA, sizing_pct = 0 \<rparr>"
  by (auto simp add: check_chicago_especulativo_def split: if_splits)

subsection \<open>The active list\<close>

lemma appended_set:
  "set (appended a b c d e) =
     set_option a \<union> set_option b \<union> set_option c \<union> set_option d \<union> set_option e"
  by (cases a; cases b; cases c; cases d; cases e; simp add: append_if_def; blast)

lemma appended_sorted:
  assumes "\<And>x. a = Some x \<Longrightarrow> priority x = 1"
    and "\<And>x. b = Some x \<Longrightarrow> priority x = 2"
    and "\<And>x. c = Some x \<Longrightarrow> priority x = 3"
    and "\<And>x. d = Some x \<Longrightarrow> priority x = 4"
    and "\<And>x. e = Some x \<Longrightarrow> priority x = 5"
  shows "sorted_wrt (<) (map priority (appended a b c d e))"
  using assms
  by (cases a; cases b; cases c; cases d; cases e; simp add: append_if_def)

lemma checks_sorted:
  "sorted_wrt (<) (map priority
     (appended (check_logistica lf lr) (check_queda_conjunta v p) (check_armadilha_premio v p)
        (check_competitividade_critica s) (check_chicago_especulativo sp nc)))"
proof (rule appended_sorted)
  show "priority x = 1" if "check_logistica lf lr = Some x" for x
    using check_logistica_Some [OF that] by simp
  show "priority x = 2" if "check_queda_conjunta v p = Some x" for x
    using check_queda_conjunta_Some [OF that] by simp
  show "priority x = 3" if "check_armadilha_premio v p = Some x" for x
    using check_armadilha_premio_Some [OF that] by simp
  show "priority x = 4" if "check_competitividade_critica s = Some x" for x
    using check_competitividade_critica_Some [OF that] by simp
  show "priority x = 5" if "check_chicago_especulativo sp nc = Some x" for x
    using check_chicago_especulativo_Some [OF that] by simp
qed

lemma sort_key_strict_id: "sorted_wrt (<) (map f xs) \<Longrightarrow> sort_key f xs = xs"
  for f :: "'a \<Rightarrow> int"
  by (rule sort_key_id_if_sorted) (simp add: strict_sorted_imp_sorted)

lemma evaluate_overrides_active:
  "active_overrides (evaluate_overrides v p s lf lr sp nc op oh) =
     appended (check_logistica lf lr) (check_queda_conjunta v p) (check_armadilha_premio v p)
       (check_competitividade_critica s) (check_chicago_especulativo sp nc)"
  using checks_sorted [of lf lr v p s sp nc]
  by (simp add: evaluate_overrides_def Let_def sort_key_strict_id)

lemma evaluate_overrides_dominant:
  "dominant_override (evaluate_overrides v p s lf lr sp nc op oh) =
     (case active_overrides (evaluate_overrides v p s lf lr sp nc op oh) of
        [] \<Rightarrow> None | first # _ \<Rightarrow> Some first)"
  by (simp add: evaluate_overrides_def Let_def)

lemma evaluate_overrides_final_physical:
  "final_physical (evaluate_overrides v p s lf lr sp nc op oh) =
     (case dominant_override (evaluate_overrides v p s lf lr sp nc op oh) of
        None \<Rightarrow> op
      | Some d \<Rightarrow> (case physical_action d of None \<Rightarrow> op | Some a \<Rightarrow> a))"
  by (simp add: evaluate_overrides_def Let_def)

lemma evaluate_overrides_final_hedge:
  "final_hedge (evaluate_overrides v p s lf lr sp nc op oh) =
     (case dominant_override (evaluate_overrides v p s lf lr sp nc op oh) of
        None \<Rightarrow> oh
      | Some d \<Rightarrow> (case hedge_action d of None \<Rightarrow> oh | Some a \<Rightarrow> a))"
  by (simp add: evaluate_overrides_def Let_def)

lemma strict_sorted_head_least:
  "sorted_wrt (<) (map f (x # xs)) \<Longrightarrow> y \<in> set (x # xs) \<Longrightarrow> y \<noteq> x \<Longrightarrow> f x < f y"
  by auto

section \<open>Override resolution\<close>

text \<open>
  C1. For every input of \<open>evaluate_overrides\<close>, the active list holds exactly the
  overrides whose checks triggered and is in ascending order of priority. If some override
  triggered, the dominant one is a triggered override whose priority number is below that
  of every other triggered override, and the final physical and hedge recommendations are
  the dominant override's replacements where it has them and the original ones where it
  has none; no other override enters them.
\<close>

theorem evaluate_overrides_dominant_lowest_priority:
  "let ev = evaluate_overrides v p s lf lr sp nc op oh;
       triggered =
         set_option (check_logistica lf lr) \<union> set_option (check_queda_conjunta v p)
         \<union> set_option (check_armadilha_premio v p)
         \<union> set_option (check_competitividade_critica s)
         \<union> set_option (check_chicago_especulativo sp nc)
   in set (active_overrides ev) = triggered
      \<and> sorted_wrt (<) (map priority (active_overrides ev))
      \<and> (triggered \<noteq> {} \<longrightarrow>
           (\<exists>d. dominant_override ev = Some d \<and> d \<in> triggered
              \<and> (\<forall>x\<in>triggered. x \<noteq> d \<longrightarrow> priority d < priority x)
              \<and> final_physical ev = (case physical_action d of None \<Rightarrow> op | Some a \<Rightarrow> a)
              \<and> final_hedge ev = (case hedge_action d of None \<Rightarrow> oh | Some a \<Rightarrow> a)))"
proof -
  let ?ev = "evaluate_overrides v p s lf lr sp nc op oh"
  let ?t = "set_option (check_logistica lf lr) \<union> set_option (check_queda_conjunta v p)
         \<union> set_option (check_armadilha_premio v p)
         \<union> set_option (check_competitividade_critica s)
         \<union> set_option (check_chicago_especulativo sp nc)"
  have members: "set (active_overrides ?ev) = ?t"
    unfolding evaluate_overrides_active by (rule appended_set)
  have ascending: "sorted_wrt (<) (map priority (active_overrides ?ev))"
    unfolding evaluate_overrides_active by (rule checks_sorted)
  have dominant: "\<exists>d. dominant_override ?ev = Some d \<and> d \<in> ?t
              \<and> (\<forall>x\<in>?t. x \<noteq> d \<longrightarrow> priority d < priority x)
              \<and> final_physical ?ev = (case physical_action d of None \<Rightarrow> op | Some a \<Rightarrow> a)
              \<and> final_hedge ?ev = (case hedge_action d of None \<Rightarrow> oh | Some a \<Rightarrow> a)"
    if nonempty: "?t \<noteq> {}"
  proof -
    from nonempty members obtain d rest where split: "active_overrides ?ev = d # rest"
      by (cases "active_overrides ?ev") auto
    have first: "dominant_override ?ev = Some d"
      by (simp add: evaluate_overrides_dominant split)
    have least: "\<forall>x\<in>?t. x \<noteq> d \<longrightarrow> priority d < priority x"
      using ascending members strict_sorted_head_least [of priority d rest]
      unfolding split by blast
    have "d \<in> ?t"
      using members split by auto
    with first least show ?thesis
      by (simp add: evaluate_overrides_final_physical evaluate_overrides_final_hedge)
  qed
  show ?thesis
    unfolding Let_def using members ascending dominant by blast
qed

theorem evaluate_overrides_dominant_lowest_priority_witness:
  "set_option (check_logistica True (Some ''strike''))
     \<union> set_option (check_queda_conjunta (Some (- 15)) 25)
     \<union> set_option (check_armadilha_premio (Some (- 15)) 25)
     \<union> set_option (check_competitividade_critica 5)
     \<union> set_option (check_chicago_especulativo False False) \<noteq> {}
   \<and> map otype (active_overrides
         (evaluate_overrides (Some (- 15)) 25 5 True (Some ''strike'') False False
            \<lparr> p_recommendation = P_MANTER, p_intensity = I_NEUTRA, sizing_pct = 0 \<rparr>
            \<lparr> h_recommendation = H_REDUZIR, h_intensity = I_MODERADA, delta_pp = - 10 \<rparr>))
       = [LOGISTICA, QUEDA_CONJUNTA]
   \<and> map_option otype (dominant_override
         (evaluate_overrides (Some (- 15)) 25 5 True (Some ''strike'') False False
            \<lparr> p_recommendation = P_MANTER, p_intensity = I_NEUTRA, sizing_pct = 0 \<rparr>
            \<lparr> h_recommendation = H_REDUZIR, h_intensity = I_MODERADA, delta_pp = - 10 \<rparr>))
       = Some LOGISTICA
   \<and> final_physical
         (evaluate_overrides (Some (- 15)) 25 5 True (Some ''strike'') False False
            \<lparr> p_recommendation = P_MANTER, p_intensity = I_NEUTRA, sizing_pct = 0 \<rparr>
            \<lparr> h_recommendation = H_REDUZIR, h_intensity = I_MODERADA, delta_pp = - 10 \<rparr>)
       = \<lparr> p_recommendation = P_REDUZIR_FORTE, p_intensity = I_FORTE, sizing_pct = - 30 \<rparr>
   \<and> final_hedge
         (evaluate_overrides (Some (- 15)) 25 5 True (Some ''strike'') False False
            \<lparr> p_recommendation = P_MANTER, p_intensity = I_NEUTRA, sizing_pct = 0 \<rparr>
            \<lparr> h_recommendation = H_REDUZIR, h_intensity = I_MODERADA, delta_pp = - 10 \<rparr>)
       = \<lparr> h_recommendation = H_REDUZIR, h_intensity = I_MODERADA, delta_pp = - 10 \<rparr>"
  using evaluate_overrides_dominant_lowest_priority
    [of "Some (- 15)" 25 5 True "Some ''strike''" False False
        "\<lparr> p_recommendation = P_MANTER, p_intensity = I_NEUTRA, sizing_pct = 0 \<rparr>"
        "\<lparr> h_recommendation = H_REDUZIR, h_intensity = I_MODERADA, delta_pp = - 10 \<rparr>"]
  by (simp add: evaluate_overrides_def check_logistica_def check_queda_conjunta_def
        check_armadilha_premio_def check_competitividade_critica_def
        check_chicago_especulativo_def append_if_def Let_def config)

text \<open>
  C7. The final hedge recommendation differs from the original one only if there is a
  dominant override and it has a hedge replacement: if the dominant override has none, or
  no override triggered, the hedge passes through unchanged. The same holds for the
  physical recommendation and the physical replacement. With an empty active list there
  is no dominant override and both recommendations are the original ones.
\<close>

theorem evaluate_overrides_frame:
  "let ev = evaluate_overrides v p s lf lr sp nc op oh
   in ((case dominant_override ev of None \<Rightarrow> True | Some d \<Rightarrow> hedge_action d = None)
         \<longrightarrow> final_hedge ev = oh)
      \<and> ((case dominant_override ev of None \<Rightarrow> True | Some d \<Rightarrow> physical_action d = None)
         \<longrightarrow> final_physical ev = op)
      \<and> (active_overrides ev = [] \<longrightarrow>
           dominant_override ev = None \<and> final_physical ev = op \<and> final_hedge ev = oh)"
  unfolding Let_def
  by (simp add: evaluate_overrides_final_physical evaluate_overrides_final_hedge
        evaluate_overrides_dominant [of v p s lf lr sp nc op oh]
      split: option.splits list.splits)

theorem evaluate_overrides_frame_witness:
  "map_option hedge_action (dominant_override
       (evaluate_overrides None 50 20 False None False False
          \<lparr> p_recommendation = P_AUMENTAR, p_intensity = I_MODERADA, sizing_pct = 15 \<rparr>
          \<lparr> h_recommendation = H_REDUZIR, h_intensity = I_MODERADA, delta_pp = - 10 \<rparr>))
     = Some None
   \<and> final_hedge
       (evaluate_overrides None 50 20 False None False False
          \<lparr> p_recommendation = P_AUMENTAR, p_intensity = I_MODERADA, sizing_pct = 15 \<rparr>
          \<lparr> h_recommendation = H_REDUZIR, h_intensity = I_MODERADA, delta_pp = - 10 \<rparr>)
     = \<lparr> h_recommendation = H_REDUZIR, h_intensity = I_MODERADA, delta_pp = - 10 \<rparr>
   \<and> active_overrides
       (evaluate_overrides None 50 0 False None False False
          \<lparr> p_recommendation = P_AUMENTAR, p_intensity = I_MODERADA, sizing_pct = 15 \<rparr>
          \<lparr> h_recommendation = H_REDUZIR, h_intensity = I_MODERADA, delta_pp = - 10 \<rparr>)
     = []
   \<and> final_physical
       (evaluate_overrides None 50 0 False None False False
          \<lparr> p_recommendation = P_AUMENTAR, p_intensity = I_MODERADA, sizing_pct = 15 \<rparr>
          \<lparr> h_recommendation = H_REDUZIR, h_intensity = I_MODERADA, delta_pp = - 10 \<rparr>)
     = \<lparr> p_recommendation = P_AUMENTAR, p_intensity = I_MODERADA, sizing_pct = 15 \<rparr>
   \<and> final_hedge
       (evaluate_overrides None 50 0 False None False False
          \<lparr> p_recommendation = P_AUMENTAR, p_intensity = I_MODERADA, sizing_pct = 15 \<rparr>
          \<lparr> h_recommendation = H_REDUZIR, h_intensity = I_MODERADA, delta_pp = - 10 \<rparr>)
     = \<lparr> h_recommendation = H_REDUZIR, h_intensity = I_MODERADA, delta_pp = - 10 \<rparr>"
  using
    evaluate_overrides_frame
      [of None 50 20 False None False False
          "\<lparr> p_recommendation = P_AUMENTAR, p_intensity = I_MODERADA, sizing_pct = 15 \<rparr>"
          "\<lparr> h_recommendation = H_REDUZIR, h_intensity = I_MODERADA, delta_pp = - 10 \<rparr>"]
    evaluate_overrides_frame
      [of None 50 0 False None False False
          "\<lparr> p_recommendation = P_AUMENTAR, p_intensity = I_MODERADA, sizing_pct = 15 \<rparr>"
          "\<lparr> h_recommendation = H_REDUZIR, h_intensity = I_MODERADA, delta_pp = - 10 \<rparr>"]
  by (simp add: evaluate_overrides_def check_logistica_def check_queda_conjunta_def
        check_armadilha_premio_def check_competitividade_critica_def
        check_chicago_especulativo_def append_if_def Let_def config)

text \<open>
  C9. When the weekly line-up change is None, neither the joint-drop check nor the
  premium-trap check returns an override, whatever the premium percentile, and no
  override of either type is in the active list of \<open>evaluate_overrides\<close>.
\<close>

theorem lineup_None_no_queda_no_armadilha:
  "check_queda_conjunta None p = None
   \<and> check_armadilha_premio None p = None
   \<and> QUEDA_CONJUNTA \<notin> otype ` set (active_overrides
         (evaluate_overrides None p s lf lr sp nc op oh))
   \<and> ARMADILHA_PREMIO \<notin> otype ` set (active_overrides
         (evaluate_overrides None p s lf lr sp nc op oh))"
proof -
  have none: "check_queda_conjunta None p = None" "check_armadilha_premio None p = None"
    by (simp_all add: check_queda_conjunta_def check_armadilha_premio_def)
  have types: "otype ` set (active_overrides (evaluate_overrides None p s lf lr sp nc op oh))
      \<subseteq> {LOGISTICA, COMPETITIVIDADE_CRITICA, CHICAGO_ESPECULATIVO}"
    unfolding evaluate_overrides_active appended_set none
    using check_logistica_Some [of lf lr] check_competitividade_critica_Some [of s]
      check_chicago_especulativo_Some [of sp nc]
    by auto
  show ?thesis
    using none types by auto
qed

theorem lineup_None_no_queda_no_armadilha_witness:
  "map otype (active_overrides
     (evaluate_overrides None 0 20 True None True False
        \<lparr> p_recommendation = P_MANTER, p_intensity = I_NEUTRA, sizing_pct = 0 \<rparr>
        \<lparr> h_recommendation = H_MANTER, h_intensity = I_NEUTRA, delta_pp = 0 \<rparr>))
     = [LOGISTICA, COMPETITIVIDADE_CRITICA, CHICAGO_ESPECULATIVO]
   \<and> check_queda_conjunta None 0 = None
   \<and> check_armadilha_premio None 100 = None"
  using
    lineup_None_no_queda_no_armadilha
      [of 0 20 True None True False
          "\<lparr> p_recommendation = P_MANTER, p_intensity = I_NEUTRA, sizing_pct = 0 \<rparr>"
          "\<lparr> h_recommendation = H_MANTER, h_intensity = I_NEUTRA, delta_pp = 0 \<rparr>"]
    lineup_None_no_queda_no_armadilha
      [of 100 20 True None True False
          "\<lparr> p_recommendation = P_MANTER, p_intensity = I_NEUTRA, sizing_pct = 0 \<rparr>"
          "\<lparr> h_recommendation = H_MANTER, h_intensity = I_NEUTRA, delta_pp = 0 \<rparr>"]
  by (simp add: evaluate_overrides_def check_logistica_def check_queda_conjunta_def
        check_armadilha_premio_def check_competitividade_critica_def
        check_chicago_especulativo_def append_if_def Let_def config)

section \<open>Baseline recommendations\<close>

text \<open>
  C2, as the specification states it, fails at the band edges: at a score of exactly 80
  (and of exactly 20) the baseline physical recommendation is tagged strong, although the
  score is neither above 80 nor below 20.
\<close>

theorem baseline_intensity_strict_bounds_counterexample:
  "p_intensity (compute_physical_recommendation 80) = I_FORTE
   \<and> \<not> ((80::real) > 80 \<or> (80::real) < 20)
   \<and> p_intensity (compute_physical_recommendation 20) = I_FORTE
   \<and> \<not> ((20::real) > 80 \<or> (20::real) < 20)"
  by (simp add: compute_physical_recommendation_def determine_intensity_def config)

text \<open>
  C2, amended. For every aggregate score \<open>s\<close>, the intensity tag of the baseline physical
  recommendation is strong exactly when \<open>s \<ge> 80\<close> or \<open>s \<le> 20\<close> (the two extreme bands
  carry the tag themselves), moderate exactly when \<open>s > 65\<close> or \<open>s < 35\<close> and it is not
  strong, and neutral otherwise. \<open>determine_intensity\<close> on its own has the strict bounds
  of the specification.
\<close>

theorem baseline_intensity_bands:
  "(p_intensity (compute_physical_recommendation s) = I_FORTE \<longleftrightarrow> s \<ge> 80 \<or> s \<le> 20)
   \<and> (p_intensity (compute_physical_recommendation s) = I_MODERADA \<longleftrightarrow>
        (s > 65 \<or> s < 35) \<and> \<not> (s \<ge> 80 \<or> s \<le> 20))
   \<and> (p_intensity (compute_physical_recommendation s) = I_NEUTRA \<longleftrightarrow>
        \<not> (s > 65 \<or> s < 35))
   \<and> (determine_intensity s = I_FORTE \<longleftrightarrow> s > 80 \<or> s < 20)
   \<and> (determine_intensity s = I_MODERADA \<longleftrightarrow> (s > 65 \<or> s < 35) \<and> \<not> (s > 80 \<or> s < 20))
   \<and> (determine_intensity s = I_NEUTRA \<longleftrightarrow> \<not> (s > 65 \<or> s < 35))"
proof -
  have forte: "p_intensity (compute_physical_recommendation s) = I_FORTE \<longleftrightarrow> s \<ge> 80 \<or> s \<le> 20"
    by (simp add: compute_physical_recommendation_def determine_intensity_def config)
  have moderada: "p_intensity (compute_physical_recommendation s) = I_MODERADA \<longleftrightarrow>
        (s > 65 \<or> s < 35) \<and> \<not> (s \<ge> 80 \<or> s \<le> 20)"
    by (auto simp add: compute_physical_recommendation_def determine_intensity_def config)
  have neutra: "p_intensity (compute_physical_recommendation s) = I_NEUTRA \<longleftrightarrow>
        \<not> (s > 65 \<or> s < 35)"
    by (auto simp add: compute_physical_recommendation_def determine_intensity_def config)
  have alone: "(determine_intensity s = I_FORTE \<longleftrightarrow> s > 80 \<or> s < 20)
      \<and> (determine_intensity s = I_MODERADA \<longleftrightarrow> (s > 65 \<or> s < 35) \<and> \<not> (s > 80 \<or> s < 20))
      \<and> (determine_intensity s = I_NEUTRA \<longleftrightarrow> \<not> (s > 65 \<or> s < 35))"
    by (auto simp add: determine_intensity_def)
  from forte moderada neutra alone show ?thesis
    by blast
qed

theorem baseline_intensity_bands_witness:
  "p_intensity (compute_physical_recommendation 80) = I_FORTE
   \<and> p_intensity (compute_physical_recommendation 70) = I_MODERADA
   \<and> p_intensity (compute_physical_recommendation 65) = I_NEUTRA
   \<and> determine_intensity 80 = I_MODERADA"
  using baseline_intensity_bands [of 80] baseline_intensity_bands [of 70]
    baseline_intensity_bands [of 65]
  by simp

text \<open>
  C3. If the spike flag is set and the reference-price percentile \<open>p\<close> is at least 50,
  the baseline hedge recommendation is a moderate increase of 10pp, whatever the band of
  \<open>p\<close>. Otherwise the band table decides, first match first: \<open>p \<ge> 80\<close> gives a strong
  increase of 20pp, \<open>p \<ge> 65\<close> an increase of 10pp, \<open>p \<le> 20\<close> a strong decrease of
  20pp, \<open>p \<le> 35\<close> a decrease of 10pp, and anything else hold with 0pp.
\<close>

theorem hedge_recommendation_table:
  "(spike \<and> p \<ge> 50 \<longrightarrow>
      compute_hedge_recommendation p spike =
        \<lparr> h_recommendation = H_AUMENTAR, h_intensity = I_MODERADA, delta_pp = 10 \<rparr>)
   \<and> (\<not> (spike \<and> p \<ge> 50) \<longrightarrow>
        (p \<ge> 80 \<longrightarrow>
           h_recommendation (compute_hedge_recommendation p spike) = H_AUMENTAR_FORTE
           \<and> delta_pp (compute_hedge_recommendation p spike) = 20)
      \<and> (p \<ge> 65 \<and> \<not> p \<ge> 80 \<longrightarrow>
           h_recommendation (compute_hedge_recommendation p spike) = H_AUMENTAR
           \<and> delta_pp (compute_hedge_recommendation p spike) = 10)
      \<and> (p \<le> 20 \<longrightarrow>
           h_recommendation (compute_hedge_recommendation p spike) = H_REDUZIR_FORTE
           \<and> delta_pp (compute_hedge_recommendation p spike) = - 20)
      \<and> (p \<le> 35 \<and> \<not> p \<le> 20 \<longrightarrow>
           h_recommendation (compute_hedge_recommendation p spike) = H_REDUZIR
           \<and> delta_pp (compute_hedge_recommendation p spike) = - 10)
      \<and> (\<not> p \<ge> 65 \<and> \<not> p \<le> 35 \<longrightarrow>
           h_recommendation (compute_hedge_recommendation p spike) = H_MANTER
           \<and> delta_pp (compute_hedge_recommendation p spike) = 0))"
  by (simp add: compute_hedge_recommendation_def config)

theorem hedge_recommendation_table_witness:
  "compute_hedge_recommendation 85 True =
     \<lparr> h_recommendation = H_AUMENTAR, h_intensity = I_MODERADA, delta_pp = 10 \<rparr>
   \<and> h_recommendation (compute_hedge_recommendation 85 False) = H_AUMENTAR_FORTE
   \<and> delta_pp (compute_hedge_recommendation 85 False) = 20
   \<and> h_recommendation (compute_hedge_recommendation 65 False) = H_AUMENTAR
   \<and> delta_pp (compute_hedge_recommendation 65 False) = 10
   \<and> h_recommendation (compute_hedge_recommendation 20 True) = H_REDUZIR_FORTE
   \<and> delta_pp (compute_hedge_recommendation 20 True) = - 20
   \<and> h_recommendation (compute_hedge_recommendation 35 False) = H_REDUZIR
   \<and> delta_pp (compute_hedge_recommendation 35 False) = - 10
   \<and> h_recommendation (compute_hedge_recommendation 49 True) = H_MANTER
   \<and> delta_pp (compute_hedge_recommendation 49 True) = 0"
  using hedge_recommendation_table [of True 85] hedge_recommendation_table [of False 85]
    hedge_recommendation_table [of False 65] hedge_recommendation_table [of True 20]
    hedge_recommendation_table [of False 35] hedge_recommendation_table [of True 49]
  by simp

section \<open>Book modulation\<close>

text \<open>
  C8. \<open>modulate_by_book\<close> is idempotent on the recommendations: modulating, with the same
  book, the physical and hedge recommendations that a modulation returned gives the same
  two recommendations again. A hold that a guard produced stays a hold.
\<close>

lemma modulate_by_book_physical:
  "m_physical (modulate_by_book physical hedge book) =
     (if p_recommendation physical \<in> {P_REDUZIR, P_REDUZIR_FORTE} \<and> is_at_short_limit book
        \<or> p_recommendation physical \<in> {P_AUMENTAR, P_AUMENTAR_FORTE} \<and> is_at_long_limit book
      then \<lparr> p_recommendation = P_MANTER, p_intensity = I_NEUTRA, sizing_pct = 0 \<rparr>
      else physical)"
  by (auto simp add: modulate_by_book_def Let_def)

lemma modulate_by_book_hedge:
  "m_hedge (modulate_by_book physical hedge book) =
     (if h_recommendation hedge \<in> {H_AUMENTAR, H_AUMENTAR_FORTE} \<and> is_overhedged book
      then \<lparr> h_recommendation = H_MANTER, h_intensity = I_NEUTRA, delta_pp = 0 \<rparr>
      else hedge)"
  by (auto simp add: modulate_by_book_def Let_def)

theorem modulate_by_book_idempotent:
  "m_physical (modulate_by_book (m_physical (modulate_by_book physical hedge book))
       (m_hedge (modulate_by_book physical hedge book)) book)
     = m_physical (modulate_by_book physical hedge book)
   \<and> m_hedge (modulate_by_book (m_physical (modulate_by_book physical hedge book))
       (m_hedge (modulate_by_book physical hedge book)) book)
     = m_hedge (modulate_by_book physical hedge book)"
  by (auto simp add: modulate_by_book_physical modulate_by_book_hedge)

theorem modulate_by_book_idempotent_witness:
  "m_physical (modulate_by_book
       \<lparr> p_recommendation = P_AUMENTAR, p_intensity = I_MODERADA, sizing_pct = 15 \<rparr>
       \<lparr> h_recommendation = H_AUMENTAR, h_intensity = I_MODERADA, delta_pp = 10 \<rparr>
       \<lparr> exposicao_fisica_pct = 80, limite_long_pct = 80, limite_short_pct = - 50,
         hedge_atual_pct = 85, hedge_meta_pct = 60 \<rparr>)
     = \<lparr> p_recommendation = P_MANTER, p_intensity = I_NEUTRA, sizing_pct = 0 \<rparr>
   \<and> m_physical (modulate_by_book
       \<lparr> p_recommendation = P_MANTER, p_intensity = I_NEUTRA, sizing_pct = 0 \<rparr>
       \<lparr> h_recommendation = H_MANTER, h_intensity = I_NEUTRA, delta_pp = 0 \<rparr>
       \<lparr> exposicao_fisica_pct = 80, limite_long_pct = 80, limite_short_pct = - 50,
         hedge_atual_pct = 85, hedge_meta_pct = 60 \<rparr>)
     = \<lparr> p_recommendation = P_MANTER, p_intensity = I_NEUTRA, sizing_pct = 0 \<rparr>
   \<and> m_hedge (modulate_by_book
       \<lparr> p_recommendation = P_MANTER, p_intensity = I_NEUTRA, sizing_pct = 0 \<rparr>
       \<lparr> h_recommendation = H_MANTER, h_intensity = I_NEUTRA, delta_pp = 0 \<rparr>
       \<lparr> exposicao_fisica_pct = 80, limite_long_pct = 80, limite_short_pct = - 50,
         hedge_atual_pct = 85, hedge_meta_pct = 60 \<rparr>)
     = \<lparr> h_recommendation = H_MANTER, h_intensity = I_NEUTRA, delta_pp = 0 \<rparr>"
  using modulate_by_book_idempotent
    [of "\<lparr> p_recommendation = P_AUMENTAR, p_intensity = I_MODERADA, sizing_pct = 15 \<rparr>"
        "\<lparr> h_recommendation = H_AUMENTAR, h_intensity = I_MODERADA, delta_pp = 10 \<rparr>"
        "\<lparr> exposicao_fisica_pct = 80, limite_long_pct = 80, limite_short_pct = - 50,
           hedge_atual_pct = 85, hedge_meta_pct = 60 \<rparr>"]
  by (simp add: modulate_by_book_physical modulate_by_book_hedge is_at_long_limit_def
        is_at_short_limit_def is_overhedged_def config)

section \<open>Percentiles\<close>

text \<open>
  C10. On an empty history the reference-price percentile of \<open>auxiliaries.py\<close> is the
  neutral 50.0 for every current price, and nothing is raised; the percentile of
  \<open>premium.py\<close> raises its ValueError on an empty sample.
\<close>

theorem empty_history_percentiles:
  "auxiliaries_calculate_percentile current [] = 50
   \<and> premium_calculate_percentile current [] = Inl ValueError_historico_vazio"
  by (simp add: auxiliaries_calculate_percentile_def premium_calculate_percentile_def)




section \<open>The decision engine\<close>

subsection \<open>Rounding and signs\<close>

lemma round_half_even_bounds: "\<lfloor>x\<rfloor> \<le> round_half_even x \<and> round_half_even x \<le> \<lfloor>x\<rfloor> + 1"
  by (simp add: round_half_even_def Let_def)

lemma round_half_even_nonneg: "0 \<le> x \<Longrightarrow> 0 \<le> round_half_even x"
proof -
  assume "0 \<le> x"
  then have "0 \<le> \<lfloor>x\<rfloor>" by simp
  with round_half_even_bounds [of x] show ?thesis by linarith
qed

lemma round_half_even_pos: "1 / 2 < x \<Longrightarrow> 1 \<le> round_half_even x"
proof -
  assume half: "1 / 2 < x"
  then have floor: "0 \<le> \<lfloor>x\<rfloor>" by simp
  show ?thesis
  proof (cases "\<lfloor>x\<rfloor> = 0")
    case True
    with half show ?thesis
      by (simp add: round_half_even_def Let_def)
  next
    case False
    with floor round_half_even_bounds [of x] show ?thesis by linarith
  qed
qed

lemma round_half_even_nonpos: "x \<le> 0 \<Longrightarrow> round_half_even x \<le> 0"
proof -
  assume neg: "x \<le> 0"
  show ?thesis
  proof (cases "x = 0")
    case True
    then show ?thesis by (simp add: round_half_even_def Let_def)
  next
    case False
    with neg have "x < 0" by simp
    then have "\<lfloor>x\<rfloor> < 0" by (simp add: floor_less_iff)
    with round_half_even_bounds [of x] show ?thesis by linarith
  qed
qed

lemma round_half_even_neg: "x < - (1 / 2) \<Longrightarrow> round_half_even x \<le> - 1"
proof -
  assume half: "x < - (1 / 2)"
  then have floor: "\<lfloor>x\<rfloor> \<le> - 1" by (simp add: floor_le_iff)
  show ?thesis
  proof (cases "\<lfloor>x\<rfloor> = - 1")
    case True
    with half show ?thesis
      by (simp add: round_half_even_def Let_def)
  next
    case False
    with floor round_half_even_bounds [of x] show ?thesis by linarith
  qed
qed

lemma py_round_1_nonneg: "0 \<le> x \<Longrightarrow> 0 \<le> py_round x 1"
  using round_half_even_nonneg [of "x * 10"] by (simp add: py_round_def)

lemma py_round_1_pos: "1 / 20 < x \<Longrightarrow> 0 < py_round x 1"
  using round_half_even_pos [of "x * 10"] by (simp add: py_round_def)

lemma py_round_1_nonpos: "x \<le> 0 \<Longrightarrow> py_round x 1 \<le> 0"
  using round_half_even_nonpos [of "x * 10"]
  by (simp add: py_round_def mult_le_0_iff divide_le_0_iff)

lemma py_round_1_neg: "x < - (1 / 20) \<Longrightarrow> py_round x 1 < 0"
  using round_half_even_neg [of "x * 10"] by (simp add: py_round_def)

lemma py_round_0: "py_round 0 n = 0"
  by (simp add: py_round_def round_half_even_def)

subsection \<open>Recommendations whose magnitude fits their action\<close>

lemma compute_physical_recommendation_fits:
  "(p_recommendation (compute_physical_recommendation s) \<in> {P_AUMENTAR, P_AUMENTAR_FORTE}
      \<longrightarrow> 15 \<le> sizing_pct (compute_physical_recommendation s))
   \<and> (p_recommendation (compute_physical_recommendation s) \<in> {P_REDUZIR, P_REDUZIR_FORTE}
      \<longrightarrow> sizing_pct (compute_physical_recommendation s) \<le> - 15)
   \<and> (p_recommendation (compute_physical_recommendation s) = P_MANTER
      \<longrightarrow> sizing_pct (compute_physical_recommendation s) = 0)"
  by (simp add: compute_physical_recommendation_def Let_def)

lemma compute_hedge_recommendation_fits:
  "(h_recommendation (compute_hedge_recommendation c k) \<in> {H_AUMENTAR, H_AUMENTAR_FORTE}
      \<longrightarrow> 10 \<le> delta_pp (compute_hedge_recommendation c k))
   \<and> (h_recommendation (compute_hedge_recommendation c k) \<in> {H_REDUZIR, H_REDUZIR_FORTE}
      \<longrightarrow> delta_pp (compute_hedge_recommendation c k) \<le> - 10)
   \<and> (h_recommendation (compute_hedge_recommendation c k) = H_MANTER
      \<longrightarrow> delta_pp (compute_hedge_recommendation c k) = 0)"
  by (simp add: compute_hedge_recommendation_def)

lemma dominant_is_a_check:
  assumes "dominant_override (evaluate_overrides v p s lf lr sp nc op oh) = Some d"
  shows "check_logistica lf lr = Some d \<or> check_queda_conjunta v p = Some d
     \<or> check_armadilha_premio v p = Some d \<or> check_competitividade_critica s = Some d
     \<or> check_chicago_especulativo sp nc = Some d"
proof -
  from assms have "d \<in> set (active_overrides (evaluate_overrides v p s lf lr sp nc op oh))"
    by (simp add: evaluate_overrides_dominant split: list.splits)
  then show ?thesis
    unfolding evaluate_overrides_active appended_set by auto
qed

lemma final_physical_fits:
  assumes "(p_recommendation op \<in> {P_AUMENTAR, P_AUMENTAR_FORTE} \<longrightarrow> 15 \<le> sizing_pct op)
     \<and> (p_recommendation op \<in> {P_REDUZIR, P_REDUZIR_FORTE} \<longrightarrow> sizing_pct op \<le> - 15)
     \<and> (p_recommendation op = P_MANTER \<longrightarrow> sizing_pct op = 0)"
  shows "(p_recommendation (final_physical (evaluate_overrides v p s lf lr sp nc op oh))
            \<in> {P_AUMENTAR, P_AUMENTAR_FORTE}
          \<longrightarrow> 15 \<le> sizing_pct (final_physical (evaluate_overrides v p s lf lr sp nc op oh)))
     \<and> (p_recommendation (final_physical (evaluate_overrides v p s lf lr sp nc op oh))
            \<in> {P_REDUZIR, P_REDUZIR_FORTE}
          \<longrightarrow> sizing_pct (final_physical (evaluate_overrides v p s lf lr sp nc op oh)) \<le> - 15)
     \<and> (p_recommendation (final_physical (evaluate_overrides v p s lf lr sp nc op oh)) = P_MANTER
          \<longrightarrow> sizing_pct (final_physical (evaluate_overrides v p s lf lr sp nc op oh)) = 0)"
proof (cases "dominant_override (evaluate_overrides v p s lf lr sp nc op oh)")
  case None
  with assms show ?thesis
    by (simp add: evaluate_overrides_final_physical)
next
  case (Some d)
  from dominant_is_a_check [OF Some] consider
      (logistica) "check_logistica lf lr = Some d"
    | (queda) "check_queda_conjunta v p = Some d"
    | (armadilha) "check_armadilha_premio v p = Some d"
    | (competitividade) "check_competitividade_critica s = Some d"
    | (chicago) "check_chicago_especulativo sp nc = Some d"
    by blast
  then show ?thesis
  proof cases
    case logistica
    from check_logistica_Some [OF this] show ?thesis
      unfolding evaluate_overrides_final_physical Some by simp
  next
    case queda
    from check_queda_conjunta_Some [OF this] show ?thesis
      unfolding evaluate_overrides_final_physical Some by simp
  next
    case armadilha
    from check_armadilha_premio_Some [OF this] show ?thesis
      unfolding evaluate_overrides_final_physical Some by simp
  next
    case competitividade
    from check_competitividade_critica_Some [OF this] show ?thesis
      unfolding evaluate_overrides_final_physical Some by simp
  next
    case chicago
    from check_chicago_especulativo_Some [OF this] show ?thesis
      unfolding evaluate_overrides_final_physical Some by simp
  qed
qed

lemma final_hedge_fits:
  assumes "(h_recommendation oh \<in> {H_AUMENTAR, H_AUMENTAR_FORTE} \<longrightarrow> 10 \<le> delta_pp oh)
     \<and> (h_recommendation oh \<in> {H_REDUZIR, H_REDUZIR_FORTE} \<longrightarrow> delta_pp oh \<le> - 10)
     \<and> (h_recommendation oh = H_MANTER \<longrightarrow> delta_pp oh = 0)"
  shows "(h_recommendation (final_hedge (evaluate_overrides v p s lf lr sp nc op oh))
            \<in> {H_AUMENTAR, H_AUMENTAR_FORTE}
          \<longrightarrow> 10 \<le> delta_pp (final_hedge (evaluate_overrides v p s lf lr sp nc op oh)))
     \<and> (h_recommendation (final_hedge (evaluate_overrides v p s lf lr sp nc op oh))
            \<in> {H_REDUZIR, H_REDUZIR_FORTE}
          \<longrightarrow> delta_pp (final_hedge (evaluate_overrides v p s lf lr sp nc op oh)) \<le> - 10)
     \<and> (h_recommendation (final_hedge (evaluate_overrides v p s lf lr sp nc op oh)) = H_MANTER
          \<longrightarrow> delta_pp (final_hedge (evaluate_overrides v p s lf lr sp nc op oh)) = 0)"
proof (cases "dominant_override (evaluate_overrides v p s lf lr sp nc op oh)")
  case None
  with assms show ?thesis
    by (simp add: evaluate_overrides_final_hedge)
next
  case (Some d)
  have untouched: ?thesis if "hedge_action d = None"
    using assms unfolding evaluate_overrides_final_hedge Some by (simp add: that)
  from dominant_is_a_check [OF Some] consider
      (logistica) "check_logistica lf lr = Some d"
    | (queda) "check_queda_conjunta v p = Some d"
    | (armadilha) "check_armadilha_premio v p = Some d"
    | (competitividade) "check_competitividade_critica s = Some d"
    | (chicago) "check_chicago_especulativo sp nc = Some d"
    by blast
  then show ?thesis
  proof cases
    case logistica
    from check_logistica_Some [OF this] show ?thesis
      by (simp add: untouched)
  next
    case queda
    from check_queda_conjunta_Some [OF this] show ?thesis
      by (simp add: untouched)
  next
    case armadilha
    from check_armadilha_premio_Some [OF this] show ?thesis
      by (simp add: untouched)
  next
    case competitividade
    from check_competitividade_critica_Some [OF this] show ?thesis
      by (simp add: untouched)
  next
    case chicago
    from check_chicago_especulativo_Some [OF this] show ?thesis
      unfolding evaluate_overrides_final_hedge Some by simp
  qed
qed

lemma PhysicalRecommendation_value_cases:
  "(PhysicalRecommendation_value r \<in> {''aumentar'', ''aumentar_forte''}
      \<longleftrightarrow> r \<in> {P_AUMENTAR, P_AUMENTAR_FORTE})
   \<and> (PhysicalRecommendation_value r \<in> {''reduzir'', ''reduzir_forte''}
      \<longleftrightarrow> r \<in> {P_REDUZIR, P_REDUZIR_FORTE})
   \<and> (PhysicalRecommendation_value r = ''manter'' \<longleftrightarrow> r = P_MANTER)"
  by (cases r) simp_all

lemma HedgeRecommendation_value_cases:
  "(HedgeRecommendation_value r \<in> {''aumentar'', ''aumentar_forte''}
      \<longleftrightarrow> r \<in> {H_AUMENTAR, H_AUMENTAR_FORTE})
   \<and> (HedgeRecommendation_value r \<in> {''reduzir'', ''reduzir_forte''}
      \<longleftrightarrow> r \<in> {H_REDUZIR, H_REDUZIR_FORTE})
   \<and> (HedgeRecommendation_value r = ''manter'' \<longleftrightarrow> r = H_MANTER)"
  by (cases r) simp_all

subsection \<open>The stages of \<open>run_decision_engine\<close>\<close>

lemma run_decision_engine_fisica:
  "recomendacao_fisica (run_decision_engine inputs book_opt) =
     \<lparr> rf_acao =
         PhysicalRecommendation_value (p_recommendation (m_physical (engine_modulated inputs book_opt))),
       rf_intensidade = Intensity_value (p_intensity (m_physical (engine_modulated inputs book_opt))),
       rf_sizing_pct =
         py_round (calculate_effective_sizing
           (sizing_pct (m_physical (engine_modulated inputs book_opt))) (engine_book book_opt)) 1 \<rparr>"
  by (simp add: run_decision_engine_def Let_def)

lemma run_decision_engine_hedge:
  "recomendacao_hedge (run_decision_engine inputs book_opt) =
     \<lparr> rh_acao =
         HedgeRecommendation_value (h_recommendation (m_hedge (engine_modulated inputs book_opt))),
       rh_intensidade = Intensity_value (h_intensity (m_hedge (engine_modulated inputs book_opt))),
       rh_delta_pp = py_round (delta_pp (m_hedge (engine_modulated inputs book_opt))) 1 \<rparr>"
  by (simp add: run_decision_engine_def Let_def)

lemma engine_scoring_physical:
  "sr_physical (compute_scoring d v p s z c cp k) =
     compute_physical_recommendation (compute_score_fisico (compute_component_scores v p s z c))"
  by (simp add: compute_scoring_def Let_def)

lemma engine_scoring_hedge:
  "sr_hedge (compute_scoring d v p s z c cp k) = compute_hedge_recommendation cp k"
  by (simp add: compute_scoring_def Let_def)

lemma engine_final_physical_fits:
  "(p_recommendation (final_physical (engine_override_eval inputs)) \<in> {P_AUMENTAR, P_AUMENTAR_FORTE}
      \<longrightarrow> 15 \<le> sizing_pct (final_physical (engine_override_eval inputs)))
   \<and> (p_recommendation (final_physical (engine_override_eval inputs)) \<in> {P_REDUZIR, P_REDUZIR_FORTE}
      \<longrightarrow> sizing_pct (final_physical (engine_override_eval inputs)) \<le> - 15)
   \<and> (p_recommendation (final_physical (engine_override_eval inputs)) = P_MANTER
      \<longrightarrow> sizing_pct (final_physical (engine_override_eval inputs)) = 0)"
  unfolding engine_scoring_physical
  by (rule final_physical_fits) (rule compute_physical_recommendation_fits)

lemma engine_final_hedge_fits:
  "(h_recommendation (final_hedge (engine_override_eval inputs)) \<in> {H_AUMENTAR, H_AUMENTAR_FORTE}
      \<longrightarrow> 10 \<le> delta_pp (final_hedge (engine_override_eval inputs)))
   \<and> (h_recommendation (final_hedge (engine_override_eval inputs)) \<in> {H_REDUZIR, H_REDUZIR_FORTE}
      \<longrightarrow> delta_pp (final_hedge (engine_override_eval inputs)) \<le> - 10)
   \<and> (h_recommendation (final_hedge (engine_override_eval inputs)) = H_MANTER
      \<longrightarrow> delta_pp (final_hedge (engine_override_eval inputs)) = 0)"
  unfolding engine_scoring_hedge
  by (rule final_hedge_fits) (rule compute_hedge_recommendation_fits)

text \<open>
  After the modulation an increase still has at least 15 and the book is below its long
  limit, a decrease has at most -15 and the book is above its short limit, a hold has 0.
\<close>

lemma engine_modulated_physical_fits:
  "(p_recommendation (m_physical (engine_modulated inputs book_opt)) \<in> {P_AUMENTAR, P_AUMENTAR_FORTE}
      \<longrightarrow> 15 \<le> sizing_pct (m_physical (engine_modulated inputs book_opt))
          \<and> \<not> is_at_long_limit (engine_book book_opt))
   \<and> (p_recommendation (m_physical (engine_modulated inputs book_opt)) \<in> {P_REDUZIR, P_REDUZIR_FORTE}
      \<longrightarrow> sizing_pct (m_physical (engine_modulated inputs book_opt)) \<le> - 15
          \<and> \<not> is_at_short_limit (engine_book book_opt))
   \<and> (p_recommendation (m_physical (engine_modulated inputs book_opt)) = P_MANTER
      \<longrightarrow> sizing_pct (m_physical (engine_modulated inputs book_opt)) = 0)"
  using engine_final_physical_fits [of inputs]
  unfolding modulate_by_book_physical by (auto split: if_splits)

lemma engine_modulated_hedge_fits:
  "(h_recommendation (m_hedge (engine_modulated inputs book_opt)) \<in> {H_AUMENTAR, H_AUMENTAR_FORTE}
      \<longrightarrow> 10 \<le> delta_pp (m_hedge (engine_modulated inputs book_opt)))
   \<and> (h_recommendation (m_hedge (engine_modulated inputs book_opt)) \<in> {H_REDUZIR, H_REDUZIR_FORTE}
      \<longrightarrow> delta_pp (m_hedge (engine_modulated inputs book_opt)) \<le> - 10)
   \<and> (h_recommendation (m_hedge (engine_modulated inputs book_opt)) = H_MANTER
      \<longrightarrow> delta_pp (m_hedge (engine_modulated inputs book_opt)) = 0)"
  using engine_final_hedge_fits [of inputs]
  unfolding modulate_by_book_hedge by (auto split: if_splits)

text \<open>The equations that evaluate the two recommendations of a report, stage by stage.\<close>

lemmas engine_eval =
  run_decision_engine_fisica run_decision_engine_hedge default_book_def
  engine_scoring_physical engine_scoring_hedge
  compute_component_scores_def compute_score_fisico_def
  score_lineup_def score_premium_def score_competitiveness_def score_demand_def
  score_cambio_def linear_map_def clamp_def
  determine_intensity_def compute_physical_recommendation_def
  compute_hedge_recommendation_def
  evaluate_overrides_final_physical evaluate_overrides_final_hedge
  evaluate_overrides_dominant evaluate_overrides_active
  append_if_def check_logistica_def check_queda_conjunta_def
  check_armadilha_premio_def check_competitividade_critica_def
  check_chicago_especulativo_def
  modulate_by_book_physical modulate_by_book_hedge
  is_at_long_limit_def is_at_short_limit_def is_overhedged_def
  calculate_effective_sizing_def exposicao_disponivel_long_def
  exposicao_disponivel_short_def
  py_round_def round_half_even_def Let_def

text \<open>
  C4. For every book \<open>b\<close> and sizing \<open>s\<close> the effective sizing is
  \<open>min(s, max(0, long limit - exposure))\<close> when \<open>s > 0\<close>,
  \<open>max(s, -max(0, exposure - short limit))\<close> when \<open>s < 0\<close>, and 0 when \<open>s = 0\<close>. In
  \<open>run_decision_engine\<close> the sizing of the report is this clamp, rounded to one decimal,
  of the sizing that the modulation returned, for the book in use; and when a dominant
  override has a physical replacement, it is that replacement that went through the
  modulation and the clamp.
\<close>

theorem effective_sizing_clamp:
  "(s > 0 \<longrightarrow>
      calculate_effective_sizing s b = min s (max 0 (limite_long_pct b - exposicao_fisica_pct b)))
   \<and> (s < 0 \<longrightarrow>
      calculate_effective_sizing s b
        = max s (- max 0 (exposicao_fisica_pct b - limite_short_pct b)))
   \<and> (s = 0 \<longrightarrow> calculate_effective_sizing s b = 0)
   \<and> rf_sizing_pct (recomendacao_fisica (run_decision_engine inputs book_opt)) =
       py_round (calculate_effective_sizing
         (sizing_pct (m_physical (engine_modulated inputs book_opt))) (engine_book book_opt)) 1
   \<and> (\<forall>d a. dominant_override (engine_override_eval inputs) = Some d
          \<and> physical_action d = Some a \<longrightarrow>
        m_physical (engine_modulated inputs book_opt) =
          m_physical (modulate_by_book a (final_hedge (engine_override_eval inputs))
            (engine_book book_opt)))"
proof -
  have clamp: "(s > 0 \<longrightarrow>
      calculate_effective_sizing s b = min s (max 0 (limite_long_pct b - exposicao_fisica_pct b)))
   \<and> (s < 0 \<longrightarrow>
      calculate_effective_sizing s b
        = max s (- max 0 (exposicao_fisica_pct b - limite_short_pct b)))
   \<and> (s = 0 \<longrightarrow> calculate_effective_sizing s b = 0)"
    by (simp add: calculate_effective_sizing_def exposicao_disponivel_long_def
          exposicao_disponivel_short_def)
  have report: "rf_sizing_pct (recomendacao_fisica (run_decision_engine inputs book_opt)) =
       py_round (calculate_effective_sizing
         (sizing_pct (m_physical (engine_modulated inputs book_opt))) (engine_book book_opt)) 1"
    by (simp add: run_decision_engine_fisica)
  have dictated: "\<forall>d a. dominant_override (engine_override_eval inputs) = Some d
          \<and> physical_action d = Some a \<longrightarrow>
        m_physical (engine_modulated inputs book_opt) =
          m_physical (modulate_by_book a (final_hedge (engine_override_eval inputs))
            (engine_book book_opt))"
    by (simp add: evaluate_overrides_final_physical)
  from clamp report dictated show ?thesis
    by blast
qed

theorem effective_sizing_clamp_witness:
  "(30::real) > 0
   \<and> calculate_effective_sizing 30
        \<lparr> exposicao_fisica_pct = 70, limite_long_pct = 80, limite_short_pct = - 50,
          hedge_atual_pct = 0, hedge_meta_pct = 60 \<rparr> = 10
   \<and> (- 30 :: real) < 0
   \<and> calculate_effective_sizing (- 30)
        \<lparr> exposicao_fisica_pct = - 40, limite_long_pct = 80, limite_short_pct = - 50,
          hedge_atual_pct = 0, hedge_meta_pct = 60 \<rparr> = - 10
   \<and> calculate_effective_sizing 0
        \<lparr> exposicao_fisica_pct = - 40, limite_long_pct = 80, limite_short_pct = - 50,
          hedge_atual_pct = 0, hedge_meta_pct = 60 \<rparr> = 0
   \<and> map_option otype (dominant_override (engine_override_eval
        \<lparr> dt = \<lparr> year = 2024, month = 3, day = 15 \<rparr>, var_semanal_lineup = Some (- 15),
          percentil_premium = 25, spread_adjusted = 5, z_pace = None, var_cambio_5d = None,
          chicago_percentile = 50, chicago_is_spike = False, logistics_flag_active = True,
          logistics_reason = Some ''strike'', narrativa_confirmada = False \<rparr>))
       = Some LOGISTICA
   \<and> recomendacao_fisica (run_decision_engine
        \<lparr> dt = \<lparr> year = 2024, month = 3, day = 15 \<rparr>, var_semanal_lineup = Some (- 15),
          percentil_premium = 25, spread_adjusted = 5, z_pace = None, var_cambio_5d = None,
          chicago_percentile = 50, chicago_is_spike = False, logistics_flag_active = True,
          logistics_reason = Some ''strike'', narrativa_confirmada = False \<rparr>
        (Some \<lparr> exposicao_fisica_pct = - 40, limite_long_pct = 80, limite_short_pct = - 50,
                hedge_atual_pct = 0, hedge_meta_pct = 60 \<rparr>))
       = \<lparr> rf_acao = ''reduzir_forte'', rf_intensidade = ''forte'', rf_sizing_pct = - 10 \<rparr>"
proof -
  note up = effective_sizing_clamp
      [of 30 "\<lparr> exposicao_fisica_pct = 70, limite_long_pct = 80, limite_short_pct = - 50,
                 hedge_atual_pct = 0, hedge_meta_pct = 60 \<rparr>"
          "\<lparr> dt = \<lparr> year = 2024, month = 3, day = 15 \<rparr>, var_semanal_lineup = Some (- 15),
             percentil_premium = 25, spread_adjusted = 5, z_pace = None, var_cambio_5d = None,
             chicago_percentile = 50, chicago_is_spike = False, logistics_flag_active = True,
             logistics_reason = Some ''strike'', narrativa_confirmada = False \<rparr>"
          "Some \<lparr> exposicao_fisica_pct = - 40, limite_long_pct = 80, limite_short_pct = - 50,
                  hedge_atual_pct = 0, hedge_meta_pct = 60 \<rparr>"]
  note down = effective_sizing_clamp
      [of "- 30" "\<lparr> exposicao_fisica_pct = - 40, limite_long_pct = 80, limite_short_pct = - 50,
                 hedge_atual_pct = 0, hedge_meta_pct = 60 \<rparr>"
          "\<lparr> dt = \<lparr> year = 2024, month = 3, day = 15 \<rparr>, var_semanal_lineup = Some (- 15),
             percentil_premium = 25, spread_adjusted = 5, z_pace = None, var_cambio_5d = None,
             chicago_percentile = 50, chicago_is_spike = False, logistics_flag_active = True,
             logistics_reason = Some ''strike'', narrativa_confirmada = False \<rparr>"
          "Some \<lparr> exposicao_fisica_pct = - 40, limite_long_pct = 80, limite_short_pct = - 50,
                  hedge_atual_pct = 0, hedge_meta_pct = 60 \<rparr>"]
  note zero = effective_sizing_clamp
      [of 0 "\<lparr> exposicao_fisica_pct = - 40, limite_long_pct = 80, limite_short_pct = - 50,
                 hedge_atual_pct = 0, hedge_meta_pct = 60 \<rparr>"
          "\<lparr> dt = \<lparr> year = 2024, month = 3, day = 15 \<rparr>, var_semanal_lineup = Some (- 15),
             percentil_premium = 25, spread_adjusted = 5, z_pace = None, var_cambio_5d = None,
             chicago_percentile = 50, chicago_is_spike = False, logistics_flag_active = True,
             logistics_reason = Some ''strike'', narrativa_confirmada = False \<rparr>"
          "Some \<lparr> exposicao_fisica_pct = - 40, limite_long_pct = 80, limite_short_pct = - 50,
                  hedge_atual_pct = 0, hedge_meta_pct = 60 \<rparr>"]
  show ?thesis
    using up [THEN conjunct1] down [THEN conjunct2, THEN conjunct1]
      zero [THEN conjunct2, THEN conjunct2, THEN conjunct1]
      zero [THEN conjunct2, THEN conjunct2, THEN conjunct2, THEN conjunct1]
    by (simp add: engine_eval config)
qed

text \<open>
  C5, as the specification states it, fails when the headroom is positive and rounds to
  nothing. With an exposure of 79.96875 under a long limit of 80 a strong increase is
  reported with a sizing of 0.0, and with an exposure of -49.96875 over a short limit of
  -50 a strong decrease is reported with a sizing of 0.0 as well.
\<close>

theorem report_sizing_sign_counterexample:
  "rf_acao (recomendacao_fisica (run_decision_engine
      \<lparr> dt = \<lparr> year = 2024, month = 3, day = 15 \<rparr>, var_semanal_lineup = Some 15,
        percentil_premium = 100, spread_adjusted = - 20, z_pace = None, var_cambio_5d = None,
        chicago_percentile = 50, chicago_is_spike = False, logistics_flag_active = False,
        logistics_reason = None, narrativa_confirmada = False \<rparr>
      (Some \<lparr> exposicao_fisica_pct = 2559 / 32, limite_long_pct = 80, limite_short_pct = - 50,
              hedge_atual_pct = 0, hedge_meta_pct = 60 \<rparr>)))
     = ''aumentar_forte''
   \<and> \<not> 0 < rf_sizing_pct (recomendacao_fisica (run_decision_engine
      \<lparr> dt = \<lparr> year = 2024, month = 3, day = 15 \<rparr>, var_semanal_lineup = Some 15,
        percentil_premium = 100, spread_adjusted = - 20, z_pace = None, var_cambio_5d = None,
        chicago_percentile = 50, chicago_is_spike = False, logistics_flag_active = False,
        logistics_reason = None, narrativa_confirmada = False \<rparr>
      (Some \<lparr> exposicao_fisica_pct = 2559 / 32, limite_long_pct = 80, limite_short_pct = - 50,
              hedge_atual_pct = 0, hedge_meta_pct = 60 \<rparr>)))
   \<and> rf_acao (recomendacao_fisica (run_decision_engine
      \<lparr> dt = \<lparr> year = 2024, month = 3, day = 15 \<rparr>, var_semanal_lineup = None,
        percentil_premium = 50, spread_adjusted = 0, z_pace = None, var_cambio_5d = None,
        chicago_percentile = 50, chicago_is_spike = False, logistics_flag_active = True,
        logistics_reason = Some ''strike'', narrativa_confirmada = False \<rparr>
      (Some \<lparr> exposicao_fisica_pct = - (1599 / 32), limite_long_pct = 80,
              limite_short_pct = - 50, hedge_atual_pct = 0, hedge_meta_pct = 60 \<rparr>)))
     = ''reduzir_forte''
   \<and> \<not> rf_sizing_pct (recomendacao_fisica (run_decision_engine
      \<lparr> dt = \<lparr> year = 2024, month = 3, day = 15 \<rparr>, var_semanal_lineup = None,
        percentil_premium = 50, spread_adjusted = 0, z_pace = None, var_cambio_5d = None,
        chicago_percentile = 50, chicago_is_spike = False, logistics_flag_active = True,
        logistics_reason = Some ''strike'', narrativa_confirmada = False \<rparr>
      (Some \<lparr> exposicao_fisica_pct = - (1599 / 32), limite_long_pct = 80,
              limite_short_pct = - 50, hedge_atual_pct = 0, hedge_meta_pct = 60 \<rparr>))) < 0"
  by (simp add: engine_eval config)

text \<open>
  C5, amended. In the report of \<open>run_decision_engine\<close>, for every input and book: an
  increase action has a sizing that is not negative, and positive whenever the long limit
  exceeds the exposure by more than 0.05; a decrease action has a sizing that is not
  positive, and negative whenever the exposure exceeds the short limit by more than 0.05;
  a hold has a sizing of 0. The hedge delta is positive for an increase action, negative
  for a decrease action, and 0 for a hold.
\<close>

theorem report_signs:
  "let book = engine_book book_opt;
       fisica = recomendacao_fisica (run_decision_engine inputs book_opt);
       hedge = recomendacao_hedge (run_decision_engine inputs book_opt)
   in (rf_acao fisica \<in> {''aumentar'', ''aumentar_forte''} \<longrightarrow>
         0 \<le> rf_sizing_pct fisica
         \<and> (1 / 20 < limite_long_pct book - exposicao_fisica_pct book \<longrightarrow>
              0 < rf_sizing_pct fisica))
      \<and> (rf_acao fisica \<in> {''reduzir'', ''reduzir_forte''} \<longrightarrow>
         rf_sizing_pct fisica \<le> 0
         \<and> (1 / 20 < exposicao_fisica_pct book - limite_short_pct book \<longrightarrow>
              rf_sizing_pct fisica < 0))
      \<and> (rf_acao fisica = ''manter'' \<longrightarrow> rf_sizing_pct fisica = 0)
      \<and> (rh_acao hedge \<in> {''aumentar'', ''aumentar_forte''} \<longrightarrow> 0 < rh_delta_pp hedge)
      \<and> (rh_acao hedge \<in> {''reduzir'', ''reduzir_forte''} \<longrightarrow> rh_delta_pp hedge < 0)
      \<and> (rh_acao hedge = ''manter'' \<longrightarrow> rh_delta_pp hedge = 0)"
proof -
  define book where "book = engine_book book_opt"
  define p where "p = m_physical (engine_modulated inputs book_opt)"
  define h where "h = m_hedge (engine_modulated inputs book_opt)"
  define e where "e = calculate_effective_sizing (sizing_pct p) book"
  have physical:
    "(p_recommendation p \<in> {P_AUMENTAR, P_AUMENTAR_FORTE}
        \<longrightarrow> 15 \<le> sizing_pct p \<and> \<not> is_at_long_limit book)
     \<and> (p_recommendation p \<in> {P_REDUZIR, P_REDUZIR_FORTE}
        \<longrightarrow> sizing_pct p \<le> - 15 \<and> \<not> is_at_short_limit book)
     \<and> (p_recommendation p = P_MANTER \<longrightarrow> sizing_pct p = 0)"
    unfolding p_def book_def by (rule engine_modulated_physical_fits)
  have hedge:
    "(h_recommendation h \<in> {H_AUMENTAR, H_AUMENTAR_FORTE} \<longrightarrow> 10 \<le> delta_pp h)
     \<and> (h_recommendation h \<in> {H_REDUZIR, H_REDUZIR_FORTE} \<longrightarrow> delta_pp h \<le> - 10)
     \<and> (h_recommendation h = H_MANTER \<longrightarrow> delta_pp h = 0)"
    unfolding h_def by (rule engine_modulated_hedge_fits)
  have fisica: "recomendacao_fisica (run_decision_engine inputs book_opt) =
      \<lparr> rf_acao = PhysicalRecommendation_value (p_recommendation p),
        rf_intensidade = Intensity_value (p_intensity p),
        rf_sizing_pct = py_round e 1 \<rparr>"
    unfolding e_def p_def book_def by (rule run_decision_engine_fisica)
  have hedge_report: "recomendacao_hedge (run_decision_engine inputs book_opt) =
      \<lparr> rh_acao = HedgeRecommendation_value (h_recommendation h),
        rh_intensidade = Intensity_value (h_intensity h),
        rh_delta_pp = py_round (delta_pp h) 1 \<rparr>"
    unfolding h_def by (rule run_decision_engine_hedge)
  have up: "0 \<le> py_round e 1
      \<and> (1 / 20 < limite_long_pct book - exposicao_fisica_pct book \<longrightarrow> 0 < py_round e 1)"
    if "p_recommendation p \<in> {P_AUMENTAR, P_AUMENTAR_FORTE}"
  proof -
    from that physical have size: "15 \<le> sizing_pct p" by blast
    then have clamp: "e = min (sizing_pct p) (max 0 (limite_long_pct book - exposicao_fisica_pct book))"
      by (simp add: e_def calculate_effective_sizing_def exposicao_disponivel_long_def)
    from clamp size have "0 \<le> e" by simp
    then have nonneg: "0 \<le> py_round e 1" by (rule py_round_1_nonneg)
    have "0 < py_round e 1" if "1 / 20 < limite_long_pct book - exposicao_fisica_pct book"
    proof -
      from that clamp size have "1 / 20 < e" by simp
      then show ?thesis by (rule py_round_1_pos)
    qed
    with nonneg show ?thesis by blast
  qed
  have down: "py_round e 1 \<le> 0
      \<and> (1 / 20 < exposicao_fisica_pct book - limite_short_pct book \<longrightarrow> py_round e 1 < 0)"
    if "p_recommendation p \<in> {P_REDUZIR, P_REDUZIR_FORTE}"
  proof -
    from that physical have size: "sizing_pct p \<le> - 15" by blast
    then have clamp: "e = max (sizing_pct p)
        (- max 0 (exposicao_fisica_pct book - limite_short_pct book))"
      by (simp add: e_def calculate_effective_sizing_def exposicao_disponivel_short_def)
    from clamp size have "e \<le> 0" by simp
    then have nonpos: "py_round e 1 \<le> 0" by (rule py_round_1_nonpos)
    have "py_round e 1 < 0" if "1 / 20 < exposicao_fisica_pct book - limite_short_pct book"
    proof -
      from that clamp size have "e < - (1 / 20)" by simp
      then show ?thesis by (rule py_round_1_neg)
    qed
    with nonpos show ?thesis by blast
  qed
  have hold: "py_round e 1 = 0" if "p_recommendation p = P_MANTER"
  proof -
    from that physical have "sizing_pct p = 0" by blast
    then show ?thesis by (simp add: e_def calculate_effective_sizing_def py_round_0)
  qed
  have hedge_up: "0 < py_round (delta_pp h) 1"
    if "h_recommendation h \<in> {H_AUMENTAR, H_AUMENTAR_FORTE}"
  proof -
    from that hedge have "10 \<le> delta_pp h" by blast
    then have "1 / 20 < delta_pp h" by simp
    then show ?thesis by (rule py_round_1_pos)
  qed
  have hedge_down: "py_round (delta_pp h) 1 < 0"
    if "h_recommendation h \<in> {H_REDUZIR, H_REDUZIR_FORTE}"
  proof -
    from that hedge have "delta_pp h \<le> - 10" by blast
    then have "delta_pp h < - (1 / 20)" by simp
    then show ?thesis by (rule py_round_1_neg)
  qed
  have hedge_hold: "py_round (delta_pp h) 1 = 0" if "h_recommendation h = H_MANTER"
  proof -
    from that hedge have "delta_pp h = 0" by blast
    then show ?thesis by (simp add: py_round_0)
  qed
  have acts:
    "PhysicalRecommendation_value (p_recommendation p) \<in> {''aumentar'', ''aumentar_forte''}
       \<longleftrightarrow> p_recommendation p \<in> {P_AUMENTAR, P_AUMENTAR_FORTE}"
    "PhysicalRecommendation_value (p_recommendation p) \<in> {''reduzir'', ''reduzir_forte''}
       \<longleftrightarrow> p_recommendation p \<in> {P_REDUZIR, P_REDUZIR_FORTE}"
    "PhysicalRecommendation_value (p_recommendation p) = ''manter''
       \<longleftrightarrow> p_recommendation p = P_MANTER"
    "HedgeRecommendation_value (h_recommendation h) \<in> {''aumentar'', ''aumentar_forte''}
       \<longleftrightarrow> h_recommendation h \<in> {H_AUMENTAR, H_AUMENTAR_FORTE}"
    "HedgeRecommendation_value (h_recommendation h) \<in> {''reduzir'', ''reduzir_forte''}
       \<longleftrightarrow> h_recommendation h \<in> {H_REDUZIR, H_REDUZIR_FORTE}"
    "HedgeRecommendation_value (h_recommendation h) = ''manter''
       \<longleftrightarrow> h_recommendation h = H_MANTER"
    using PhysicalRecommendation_value_cases [of "p_recommendation p"]
      HedgeRecommendation_value_cases [of "h_recommendation h"]
    by blast+
  have "(PhysicalRecommendation_value (p_recommendation p) \<in> {''aumentar'', ''aumentar_forte''} \<longrightarrow>
         0 \<le> py_round e 1
         \<and> (1 / 20 < limite_long_pct book - exposicao_fisica_pct book \<longrightarrow> 0 < py_round e 1))
      \<and> (PhysicalRecommendation_value (p_recommendation p) \<in> {''reduzir'', ''reduzir_forte''} \<longrightarrow>
         py_round e 1 \<le> 0
         \<and> (1 / 20 < exposicao_fisica_pct book - limite_short_pct book \<longrightarrow> py_round e 1 < 0))
      \<and> (PhysicalRecommendation_value (p_recommendation p) = ''manter'' \<longrightarrow> py_round e 1 = 0)
      \<and> (HedgeRecommendation_value (h_recommendation h) \<in> {''aumentar'', ''aumentar_forte''}
           \<longrightarrow> 0 < py_round (delta_pp h) 1)
      \<and> (HedgeRecommendation_value (h_recommendation h) \<in> {''reduzir'', ''reduzir_forte''}
           \<longrightarrow> py_round (delta_pp h) 1 < 0)
      \<and> (HedgeRecommendation_value (h_recommendation h) = ''manter''
           \<longrightarrow> py_round (delta_pp h) 1 = 0)"
    unfolding acts using up down hold hedge_up hedge_down hedge_hold by blast
  then show ?thesis
    unfolding Let_def fisica hedge_report RecomendacaoFisica.simps RecomendacaoHedge.simps
      book_def .
qed

theorem report_signs_witness:
  "recomendacao_fisica (run_decision_engine
      \<lparr> dt = \<lparr> year = 2024, month = 3, day = 15 \<rparr>, var_semanal_lineup = Some 15,
        percentil_premium = 100, spread_adjusted = - 20, z_pace = None, var_cambio_5d = None,
        chicago_percentile = 85, chicago_is_spike = False, logistics_flag_active = False,
        logistics_reason = None, narrativa_confirmada = False \<rparr> None)
     = \<lparr> rf_acao = ''aumentar_forte'', rf_intensidade = ''forte'', rf_sizing_pct = 25 \<rparr>
   \<and> recomendacao_hedge (run_decision_engine
      \<lparr> dt = \<lparr> year = 2024, month = 3, day = 15 \<rparr>, var_semanal_lineup = Some 15,
        percentil_premium = 100, spread_adjusted = - 20, z_pace = None, var_cambio_5d = None,
        chicago_percentile = 85, chicago_is_spike = False, logistics_flag_active = False,
        logistics_reason = None, narrativa_confirmada = False \<rparr> None)
     = \<lparr> rh_acao = ''aumentar_forte'', rh_intensidade = ''forte'', rh_delta_pp = 20 \<rparr>
   \<and> recomendacao_fisica (run_decision_engine
      \<lparr> dt = \<lparr> year = 2024, month = 3, day = 15 \<rparr>, var_semanal_lineup = None,
        percentil_premium = 50, spread_adjusted = 0, z_pace = None, var_cambio_5d = None,
        chicago_percentile = 10, chicago_is_spike = False, logistics_flag_active = True,
        logistics_reason = Some ''strike'', narrativa_confirmada = False \<rparr> None)
     = \<lparr> rf_acao = ''reduzir_forte'', rf_intensidade = ''forte'', rf_sizing_pct = - 30 \<rparr>
   \<and> recomendacao_hedge (run_decision_engine
      \<lparr> dt = \<lparr> year = 2024, month = 3, day = 15 \<rparr>, var_semanal_lineup = None,
        percentil_premium = 50, spread_adjusted = 0, z_pace = None, var_cambio_5d = None,
        chicago_percentile = 10, chicago_is_spike = False, logistics_flag_active = True,
        logistics_reason = Some ''strike'', narrativa_confirmada = False \<rparr> None)
     = \<lparr> rh_acao = ''reduzir_forte'', rh_intensidade = ''forte'', rh_delta_pp = - 20 \<rparr>
   \<and> recomendacao_fisica (run_decision_engine
      \<lparr> dt = \<lparr> year = 2024, month = 3, day = 15 \<rparr>, var_semanal_lineup = None,
        percentil_premium = 50, spread_adjusted = 0, z_pace = None, var_cambio_5d = None,
        chicago_percentile = 50, chicago_is_spike = False, logistics_flag_active = False,
        logistics_reason = None, narrativa_confirmada = False \<rparr> None)
     = \<lparr> rf_acao = ''manter'', rf_intensidade = ''neutra'', rf_sizing_pct = 0 \<rparr>
   \<and> recomendacao_hedge (run_decision_engine
      \<lparr> dt = \<lparr> year = 2024, month = 3, day = 15 \<rparr>, var_semanal_lineup = None,
        percentil_premium = 50, spread_adjusted = 0, z_pace = None, var_cambio_5d = None,
        chicago_percentile = 50, chicago_is_spike = False, logistics_flag_active = False,
        logistics_reason = None, narrativa_confirmada = False \<rparr> None)
     = \<lparr> rh_acao = ''manter'', rh_intensidade = ''neutra'', rh_delta_pp = 0 \<rparr>"
  using
    report_signs
      [of None
          "\<lparr> dt = \<lparr> year = 2024, month = 3, day = 15 \<rparr>, var_semanal_lineup = Some 15,
             percentil_premium = 100, spread_adjusted = - 20, z_pace = None,
             var_cambio_5d = None, chicago_percentile = 85, chicago_is_spike = False,
             logistics_flag_active = False, logistics_reason = None,
             narrativa_confirmada = False \<rparr>"]
    report_signs
      [of None
          "\<lparr> dt = \<lparr> year = 2024, month = 3, day = 15 \<rparr>, var_semanal_lineup = None,
             percentil_premium = 50, spread_adjusted = 0, z_pace = None,
             var_cambio_5d = None, chicago_percentile = 10, chicago_is_spike = False,
             logistics_flag_active = True, logistics_reason = Some ''strike'',
             narrativa_confirmada = False \<rparr>"]
    report_signs
      [of None
          "\<lparr> dt = \<lparr> year = 2024, month = 3, day = 15 \<rparr>, var_semanal_lineup = None,
             percentil_premium = 50, spread_adjusted = 0, z_pace = None,
             var_cambio_5d = None, chicago_percentile = 50, chicago_is_spike = False,
             logistics_flag_active = False, logistics_reason = None,
             narrativa_confirmada = False \<rparr>"]
  by (simp add: engine_eval config)

end
